theory Spec2Isabelle
  imports Complex_Main "HOL-Library.Multiset" "HOL-Library.Word"
begin

section \<open>Python values\<close>

text \<open>
  The pipeline passes around what \<^verbatim>\<open>json.loads\<close> returns: dictionaries, lists,
  strings, numbers, booleans and \<^verbatim>\<open>None\<close>. The stages are annotated with
  \<^verbatim>\<open>dict[str, Any]\<close>, so the model keeps the values untyped and writes out what
  Python does on each of them. A dictionary is an association list in insertion order;
  lookup takes the first entry for a key (a Python dictionary has one entry for each key).
  A string is a list of characters, read as code points below 256.
\<close>

datatype pyfloat = Finite rat | PosInf | NegInf | NaN

datatype json =
    JNull
  | JBool bool
  | JInt int
  | JFloat pyfloat
  | JStr string
  | JList "json list"
  | JObj "(string \<times> json) list"

type_synonym bytes = "8 word list"

text \<open>An exception is its class name and its message; \<^verbatim>\<open>str(exc)\<close> is the message.\<close>

datatype exn = Exn (exn_class: string) (exn_msg: string)

definition quoted :: "string \<Rightarrow> string" where
  "quoted s = CHR 0x27 # s @ [CHR 0x27]"

fun py_type_name :: "json \<Rightarrow> string" where
  "py_type_name JNull = ''NoneType''"
| "py_type_name (JBool b) = ''bool''"
| "py_type_name (JInt i) = ''int''"
| "py_type_name (JFloat f) = ''float''"
| "py_type_name (JStr s) = ''str''"
| "py_type_name (JList xs) = ''list''"
| "py_type_name (JObj kvs) = ''dict''"

definition AttributeError :: "json \<Rightarrow> string \<Rightarrow> exn" where
  "AttributeError v attr =
     Exn ''AttributeError'' (quoted (py_type_name v) @ '' object has no attribute '' @ quoted attr)"

definition NotIterable :: "json \<Rightarrow> exn" where
  "NotIterable v = Exn ''TypeError'' (quoted (py_type_name v) @ '' object is not iterable'')"

definition NoLen :: "json \<Rightarrow> exn" where
  "NoLen v = Exn ''TypeError'' (''object of type '' @ quoted (py_type_name v) @ '' has no len()'')"

definition NotSubscriptable :: "json \<Rightarrow> exn" where
  "NotSubscriptable v = Exn ''TypeError'' (quoted (py_type_name v) @ '' object is not subscriptable'')"

definition CannotConcatenate :: "json \<Rightarrow> exn" where
  "CannotConcatenate v =
     Exn ''TypeError'' (''can only concatenate str (not '' @ [CHR 0x22] @ py_type_name v @ [CHR 0x22] @ '') to str'')"

text \<open>\<^verbatim>\<open>v.get(k, d)\<close>: only a dictionary has the method.\<close>

fun py_get :: "json \<Rightarrow> string \<Rightarrow> json \<Rightarrow> exn + json" where
  "py_get (JObj kvs) k d = Inr (case map_of kvs k of None \<Rightarrow> d | Some v \<Rightarrow> v)"
| "py_get v k d = Inl (AttributeError v ''get'')"

text \<open>\<open>field v k d\<close> is \<^verbatim>\<open>v.get(k, d)\<close> where \<open>v\<close> is known to be a dictionary.\<close>

definition field :: "json \<Rightarrow> string \<Rightarrow> json \<Rightarrow> json" where
  "field v k d = (case py_get v k d of Inl e \<Rightarrow> d | Inr x \<Rightarrow> x)"

text \<open>Truthiness, as \<^verbatim>\<open>if v:\<close> and \<^verbatim>\<open>not v\<close> read it.\<close>

fun py_truthy :: "json \<Rightarrow> bool" where
  "py_truthy JNull = False"
| "py_truthy (JBool b) = b"
| "py_truthy (JInt i) = (i \<noteq> 0)"
| "py_truthy (JFloat f) = (case f of Finite q \<Rightarrow> q \<noteq> 0 | _ \<Rightarrow> True)"
| "py_truthy (JStr s) = (s \<noteq> [])"
| "py_truthy (JList xs) = (xs \<noteq> [])"
| "py_truthy (JObj kvs) = (kvs \<noteq> [])"

text \<open>\<^verbatim>\<open>for x in v\<close>: a list gives its elements, a string its characters, a
  dictionary its keys; nothing else is iterable.\<close>

fun py_iter :: "json \<Rightarrow> exn + json list" where
  "py_iter (JList xs) = Inr xs"
| "py_iter (JStr s) = Inr (map (\<lambda>c. JStr [c]) s)"
| "py_iter (JObj kvs) = Inr (map (\<lambda>kv. JStr (fst kv)) kvs)"
| "py_iter v = Inl (NotIterable v)"

fun py_len :: "json \<Rightarrow> exn + nat" where
  "py_len (JList xs) = Inr (length xs)"
| "py_len (JStr s) = Inr (length s)"
| "py_len (JObj kvs) = Inr (length kvs)"
| "py_len v = Inl (NoLen v)"

text \<open>\<^verbatim>\<open>v[:n]\<close>: a prefix of a string or a list; a dictionary takes the slice for a
  key it does not have, the other values are not subscriptable.\<close>

fun py_slice_to :: "nat \<Rightarrow> json \<Rightarrow> exn + json" where
  "py_slice_to n (JStr s) = Inr (JStr (take n s))"
| "py_slice_to n (JList xs) = Inr (JList (take n xs))"
| "py_slice_to n (JObj kvs) = Inl (Exn ''KeyError'' ''slice(None, 80, None)'')"
| "py_slice_to n v = Inl (NotSubscriptable v)"

text \<open>
  Library functions the repository calls and does not define are parameters of the model:
  \<^verbatim>\<open>base64.b64decode\<close>, \<^verbatim>\<open>base64.b64encode(..).decode("utf-8")\<close>,
  \<^verbatim>\<open>json.loads\<close> and the text an f-string or \<^verbatim>\<open>str.format\<close> gives
  for a value. \<^verbatim>\<open>json.loads\<close> returns a value, raises
  \<^verbatim>\<open>json.JSONDecodeError\<close>, the one class the repository catches around it, or
  raises an exception of another class (\<^verbatim>\<open>RecursionError\<close> on deep nesting,
  \<^verbatim>\<open>ValueError\<close> on an integer with too many digits). The external collaborators are
  records of their answers, one for each service module below; each module's
  \<^verbatim>\<open>_get_client()\<close> is taken to return its handle.
\<close>

datatype loads_result = Loaded json | JSONDecodeError | LoadsRaised exn

record pylib =
  b64decode :: "json \<Rightarrow> exn + bytes"
  b64encode :: "bytes \<Rightarrow> string"
  json_loads :: "string \<Rightarrow> loads_result"
  format_value :: "json \<Rightarrow> string"

section \<open>Outbound events\<close>

text \<open>The messages put on \<^verbatim>\<open>send_queue\<close>, one constructor for each \<^verbatim>\<open>"type"\<close>,
  with the fields in the order the source writes them.\<close>

datatype event =
    Status string
  | Meta json json
  | Title json
  | SectionStart json
  | Audio json string
  | Text json string
  | ImageUrl json string json
  | SectionEnd json
  | Error string
  | Done

section \<open>Narration: services/gemini\_live.py\<close>

text \<open>
  One message of the Live session: \<^verbatim>\<open>response.data\<close>, \<^verbatim>\<open>response.text\<close> and
  \<^verbatim>\<open>response.server_content.turn_complete\<close>, each of which may be absent.
\<close>

record server_content =
  turn_complete :: "bool option"

record response =
  resp_data :: "bytes option"
  resp_text :: "string option"
  resp_server_content :: "server_content option"

text \<open>
  The speech collaborator: whether \<^verbatim>\<open>connect\<close> raises, what the session answers to
  the \<open>n\<close>-th submitted turn (the messages \<^verbatim>\<open>receive()\<close> yields, and the exception
  that ends them if one does; a failing \<^verbatim>\<open>send_client_content\<close> is no message and an
  exception), and whether closing the session raises. A stream that never ends is outside
  this model: the stage then does not return.
\<close>

record live_env =
  connect_fault :: "exn option"
  turn :: "nat \<Rightarrow> json \<Rightarrow> response list \<times> exn option"
  close_fault :: "exn option"

definition audio_events :: "pylib \<Rightarrow> json \<Rightarrow> response \<Rightarrow> event list" where
  "audio_events lib section_id r =
     (case resp_data r of
        None \<Rightarrow> []
      | Some d \<Rightarrow> if d \<noteq> [] then [Audio section_id (b64encode lib d)] else [])"

definition text_events :: "json \<Rightarrow> response \<Rightarrow> event list" where
  "text_events section_id r =
     (case resp_text r of
        None \<Rightarrow> []
      | Some t \<Rightarrow> if t \<noteq> [] then [Text section_id t] else [])"

definition is_turn_complete :: "response \<Rightarrow> bool" where
  "is_turn_complete r =
     (case resp_server_content r of
        None \<Rightarrow> False
      | Some sc \<Rightarrow> turn_complete sc = Some True)"

text \<open>The \<^verbatim>\<open>async for\<close> loop of \<^verbatim>\<open>_narrate_text\<close>: the events it queues and the
  exception it ends with, if any.\<close>

fun receive_loop :: "pylib \<Rightarrow> json \<Rightarrow> response list \<Rightarrow> exn option \<Rightarrow> event list \<times> exn option" where
  "receive_loop lib section_id [] fault = ([], fault)"
| "receive_loop lib section_id (r # rs) fault =
     (if is_turn_complete r
      then (audio_events lib section_id r @ text_events section_id r, None)
      else (audio_events lib section_id r @ text_events section_id r
              @ fst (receive_loop lib section_id rs fault),
            snd (receive_loop lib section_id rs fault)))"

definition narrate_text :: "pylib \<Rightarrow> live_env \<Rightarrow> nat \<Rightarrow> json \<Rightarrow> json \<Rightarrow> event list \<times> exn option" where
  "narrate_text lib env n txt section_id =
     receive_loop lib section_id (fst (turn env n txt)) (snd (turn env n txt))"

text \<open>The \<^verbatim>\<open>for section in sections\<close> loop; \<open>n\<close> counts the turns submitted so far.\<close>

fun narrate_sections :: "pylib \<Rightarrow> live_env \<Rightarrow> nat \<Rightarrow> json list \<Rightarrow> event list \<times> exn option" where
  "narrate_sections lib env n [] = ([], None)"
| "narrate_sections lib env n (section # rest) =
     (case py_get section ''id'' (JInt 0) of
        Inl e \<Rightarrow> ([], Some e)
      | Inr section_id \<Rightarrow>
     (case py_get section ''narration'' (JStr []) of
        Inl e \<Rightarrow> ([], Some e)
      | Inr narration \<Rightarrow>
     (case narrate_text lib env n narration section_id of
        (evs, Some e) \<Rightarrow> (SectionStart section_id # evs, Some e)
      | (evs, None) \<Rightarrow>
          (SectionStart section_id # evs @ SectionEnd section_id
             # fst (narrate_sections lib env (Suc n) rest),
           snd (narrate_sections lib env (Suc n) rest)))))"

text \<open>Sequencing inside the \<^verbatim>\<open>try\<close>: the second part runs only if the first did
  not raise.\<close>

definition and_then :: "event list \<times> exn option \<Rightarrow> event list \<times> exn option \<Rightarrow> event list \<times> exn option" where
  "and_then a b = (case snd a of Some e \<Rightarrow> a | None \<Rightarrow> (fst a @ fst b, snd b))"

definition narrate_intro :: "pylib \<Rightarrow> live_env \<Rightarrow> json \<Rightarrow> event list \<times> exn option" where
  "narrate_intro lib env intro =
     (if py_truthy intro then narrate_text lib env 0 intro (JInt 0) else ([], None))"

definition narrate_loop :: "pylib \<Rightarrow> live_env \<Rightarrow> nat \<Rightarrow> json \<Rightarrow> event list \<times> exn option" where
  "narrate_loop lib env n sections =
     (case py_iter sections of
        Inl e \<Rightarrow> ([], Some e)
      | Inr items \<Rightarrow> narrate_sections lib env n items)"

definition narrate_outro :: "pylib \<Rightarrow> live_env \<Rightarrow> nat \<Rightarrow> json \<Rightarrow> event list \<times> exn option" where
  "narrate_outro lib env n outro =
     (if py_truthy outro then narrate_text lib env n outro (JInt (- 1)) else ([], None))"

definition turns_before_outro :: "json \<Rightarrow> json \<Rightarrow> nat" where
  "turns_before_outro intro sections =
     (if py_truthy intro then 1 else 0)
       + (case py_iter sections of Inl e \<Rightarrow> 0 | Inr items \<Rightarrow> length items)"

text \<open>The body of \<^verbatim>\<open>async with ... as session\<close>, then leaving the block: an
  exception raised on closing replaces whatever the body ended with.\<close>

definition session_body :: "pylib \<Rightarrow> live_env \<Rightarrow> json \<Rightarrow> json \<Rightarrow> json \<Rightarrow> event list \<times> exn option" where
  "session_body lib env sections intro outro =
     and_then (narrate_intro lib env intro)
       (and_then (narrate_loop lib env (if py_truthy intro then 1 else 0) sections)
          (narrate_outro lib env (turns_before_outro intro sections) outro))"

definition with_session :: "pylib \<Rightarrow> live_env \<Rightarrow> json \<Rightarrow> json \<Rightarrow> json \<Rightarrow> event list \<times> exn option" where
  "with_session lib env sections intro outro =
     (case connect_fault env of
        Some e \<Rightarrow> ([], Some e)
      | None \<Rightarrow>
          (case close_fault env of
             Some e \<Rightarrow> (fst (session_body lib env sections intro outro), Some e)
           | None \<Rightarrow> session_body lib env sections intro outro))"

text \<open>\<^verbatim>\<open>narrate_script\<close>: the three \<^verbatim>\<open>script.get\<close> calls stand before the
  \<^verbatim>\<open>try\<close>, so their exception leaves the function; everything after is caught and
  reported as one error event.\<close>

definition narrate_script :: "pylib \<Rightarrow> live_env \<Rightarrow> json \<Rightarrow> exn + event list" where
  "narrate_script lib env script =
     (case py_get script ''sections'' (JList []) of
        Inl e \<Rightarrow> Inl e
      | Inr sections \<Rightarrow>
     (case py_get script ''intro'' (JStr []) of
        Inl e \<Rightarrow> Inl e
      | Inr intro \<Rightarrow>
     (case py_get script ''outro'' (JStr []) of
        Inl e \<Rightarrow> Inl e
      | Inr outro \<Rightarrow>
          Inr (case snd (with_session lib env sections intro outro) of
                 None \<Rightarrow> fst (with_session lib env sections intro outro)
               | Some exc \<Rightarrow>
                   fst (with_session lib env sections intro outro)
                     @ [Error (''Narration error: '' @ exn_msg exc)]))))"

section \<open>Concurrent producers on one queue\<close>

text \<open>
  \<^verbatim>\<open>asyncio.gather\<close> runs its tasks concurrently on one event loop; each task's
  \<^verbatim>\<open>put\<close> calls reach the queue in the task's own order, interleaved with the others'
  in an order the scheduler decides. A schedule is the list of task indices in the order
  the scheduler lets them put; \<^verbatim>\<open>gather\<close> returns when every task has finished,
  so what a schedule leaves over is flushed at the end.
\<close>

fun interleave :: "nat list \<Rightarrow> 'a list list \<Rightarrow> 'a list" where
  "interleave [] xss = concat xss"
| "interleave (i # sched) xss =
     (if i < length xss
      then (case xss ! i of
              [] \<Rightarrow> interleave sched xss
            | x # xs \<Rightarrow> x # interleave sched (xss[i := xs]))
      else interleave sched xss)"

section \<open>Image generation: services/imagen.py\<close>

definition STYLE_PREFIX :: string where
  "STYLE_PREFIX =
     ''Educational illustration, clean white background, vibrant colors, ''
     @ ''clearly labeled, suitable for a student textbook, high detail: ''"

text \<open>The image collaborator: what \<^verbatim>\<open>generate_images\<close> answers to the call of the
  \<open>i\<close>-th section's task, an exception or the list \<^verbatim>\<open>response.generated_images\<close>
  (empty when absent), each image with its bytes if it has any.\<close>

record imagen_env =
  generate_images :: "nat \<Rightarrow> string \<Rightarrow> exn + bytes option list"

definition generate_image :: "imagen_env \<Rightarrow> nat \<Rightarrow> json \<Rightarrow> exn + bytes option" where
  "generate_image ienv i prompt =
     (case prompt of
        JStr p \<Rightarrow>
          (case generate_images ienv i (STYLE_PREFIX @ p) of
             Inl exc \<Rightarrow> Inr None
           | Inr [] \<Rightarrow> Inr None
           | Inr (img # others) \<Rightarrow> Inr img)
      | v \<Rightarrow> Inl (CannotConcatenate v))"

section \<open>Storage: services/storage.py\<close>

text \<open>The storage collaborator: whether getting the bucket raises, the hex of the
  \<^verbatim>\<open>uuid4\<close> drawn by the \<open>i\<close>-th section's upload, whether the upload of a blob
  raises, and the signed URL of a blob or the exception signing raises.\<close>

record storage_env =
  bucket_fault :: "exn option"
  uuid4_hex :: "nat \<Rightarrow> string"
  upload_from_string :: "string \<Rightarrow> bytes \<Rightarrow> string \<Rightarrow> exn option"
  generate_signed_url :: "string \<Rightarrow> exn + string"

definition blob_name :: "storage_env \<Rightarrow> nat \<Rightarrow> string option \<Rightarrow> string" where
  "blob_name senv i destination_name =
     (case destination_name of
        None \<Rightarrow> ''images/'' @ uuid4_hex senv i @ ''.png''
      | Some d \<Rightarrow> ''images/'' @ uuid4_hex senv i @ ''_'' @ d)"

definition upload_image_bytes :: "storage_env \<Rightarrow> nat \<Rightarrow> bytes \<Rightarrow> string option \<Rightarrow> string \<Rightarrow> exn + string" where
  "upload_image_bytes senv i image_bytes destination_name content_type =
     (case bucket_fault senv of
        Some exc \<Rightarrow> Inl exc
      | None \<Rightarrow>
          (case upload_from_string senv (blob_name senv i destination_name) image_bytes content_type of
             Some exc \<Rightarrow> Inl exc
           | None \<Rightarrow> generate_signed_url senv (blob_name senv i destination_name)))"

section \<open>Media stage: agents/visual\_agent.py\<close>

text \<open>One section's task: the events it queues and what it returns or raises. The two
  \<^verbatim>\<open>section.get\<close> calls stand before the \<^verbatim>\<open>try\<close>; everything raised after
  them is caught and the task returns \<^verbatim>\<open>None\<close>.\<close>

definition generate_section_image ::
  "pylib \<Rightarrow> imagen_env \<Rightarrow> storage_env \<Rightarrow> nat \<Rightarrow> json \<Rightarrow> event list \<times> (exn + string option)" where
  "generate_section_image lib ienv senv i section =
     (case py_get section ''id'' (JInt 0) of
        Inl e \<Rightarrow> ([], Inl e)
      | Inr section_id \<Rightarrow>
     (case py_get section ''image_prompt'' (JStr ''educational diagram'') of
        Inl e \<Rightarrow> ([], Inl e)
      | Inr image_prompt \<Rightarrow>
     (case generate_image ienv i image_prompt of
        Inl exc \<Rightarrow> ([], Inr None)
      | Inr None \<Rightarrow> ([], Inr None)
      | Inr (Some image_bytes) \<Rightarrow>
          if image_bytes = [] then ([], Inr None)
          else
            (case upload_image_bytes senv i image_bytes
                    (Some (''section_'' @ format_value lib section_id @ ''.png'')) ''image/png'' of
               Inl exc \<Rightarrow> ([], Inr None)
             | Inr url \<Rightarrow>
                 (case py_slice_to 80 image_prompt of
                    Inl exc \<Rightarrow> ([], Inr None)
                  | Inr caption \<Rightarrow> ([ImageUrl section_id url caption], Inr (Some url)))))))"

text \<open>\<^verbatim>\<open>generate_all_images\<close>: one task for each section, gathered with
  \<^verbatim>\<open>return_exceptions=True\<close>, so a task's exception is collected and not raised.\<close>

definition section_tasks ::
  "pylib \<Rightarrow> imagen_env \<Rightarrow> storage_env \<Rightarrow> json list \<Rightarrow> (event list \<times> (exn + string option)) list" where
  "section_tasks lib ienv senv items =
     map2 (generate_section_image lib ienv senv) [0..<length items] items"

definition generate_all_images ::
  "pylib \<Rightarrow> imagen_env \<Rightarrow> storage_env \<Rightarrow> nat list \<Rightarrow> json \<Rightarrow> event list \<times> (exn + unit)" where
  "generate_all_images lib ienv senv sched script =
     (case py_get script ''sections'' (JList []) of
        Inl e \<Rightarrow> ([], Inl e)
      | Inr sections \<Rightarrow>
          if \<not> py_truthy sections then ([], Inr ())
          else
            (case py_iter sections of
               Inl e \<Rightarrow> ([], Inl e)
             | Inr items \<Rightarrow>
                 (interleave sched (map fst (section_tasks lib ienv senv items)), Inr ())))"

section \<open>Reading a model's answer\<close>

text \<open>\<^verbatim>\<open>str.strip()\<close> removes the whitespace Python knows among the code points
  below 256: tab to carriage return, the four separators 28 to 31, space, 133 and 160.\<close>

definition is_space :: "char \<Rightarrow> bool" where
  "is_space c =
     ((9 \<le> (of_char c :: nat) \<and> (of_char c :: nat) \<le> 13)
      \<or> (28 \<le> (of_char c :: nat) \<and> (of_char c :: nat) \<le> 32)
      \<or> (of_char c :: nat) = 133 \<or> (of_char c :: nat) = 160)"

definition py_strip :: "string \<Rightarrow> string" where
  "py_strip s = rev (dropWhile is_space (rev (dropWhile is_space s)))"

definition startswith :: "string \<Rightarrow> string \<Rightarrow> bool" where
  "startswith s p = (take (length p) s = p)"

definition FENCE :: string where
  "FENCE = [CHR 0x60, CHR 0x60, CHR 0x60]"

text \<open>\<^verbatim>\<open>raw.split(FENCE)\<close>, scanning from the left; \<open>cur\<close> is the piece being read.\<close>

fun split_fence :: "string \<Rightarrow> string \<Rightarrow> string list" where
  "split_fence cur [] = [cur]"
| "split_fence cur (c # cs) =
     (if c = CHR 0x60 \<and> take 2 cs = [CHR 0x60, CHR 0x60]
      then cur # split_fence [] (drop 2 cs)
      else split_fence (cur @ [c]) cs)"

text \<open>The fence stripping both agents do before \<^verbatim>\<open>json.loads\<close>; the index
  \<^verbatim>\<open>[1]\<close> raises when the split has one piece.\<close>

definition strip_fences :: "string \<Rightarrow> exn + string" where
  "strip_fences response_text =
     (if startswith (py_strip response_text) FENCE
      then (case split_fence [] (py_strip response_text) of
              first # second # more_pieces \<Rightarrow>
                Inr (py_strip (if startswith second ''json'' then drop 4 second else second))
            | pieces \<Rightarrow> Inl (Exn ''IndexError'' ''list index out of range''))
      else Inr (py_strip (py_strip response_text)))"

definition join_lines :: "string list \<Rightarrow> string" where
  "join_lines ls = concat (case ls of [] \<Rightarrow> [] | l # rest \<Rightarrow> l # map (\<lambda>x. CHR 0x0A # x) rest)"

section \<open>Analysis stage: agents/vision\_agent.py\<close>

definition VISION_PROMPT :: "string \<Rightarrow> string" where
  \<open>VISION_PROMPT question = join_lines
     [''You are an expert educational analyst.'',
      ''The user has captured a photo (likely of a textbook page, diagram, or homework problem)'',
      ''and asked: "'' @ question @ ''"'',
      [],
      ''Analyze the image carefully and respond ONLY with a JSON object (no markdown, no extra text):'',
      ''{'',
      ''  "subject": "<main academic subject, e.g. Biology, Physics, Mathematics>",'',
      ''  "topic": "<specific topic visible in the image, e.g. photosynthesis, quadratic equations>",'',
      ''  "context": "<brief description of what is shown in the image, 2-3 sentences>",'',
      ''  "question": "<restate the user'' @ [CHR 0x27] @ ''s question clearly>"'',
      ''}'']\<close>

text \<open>The analysis collaborator: given the image bytes and the prompt, it raises or
  answers with \<^verbatim>\<open>response.text\<close>, which is absent when the answer has no text part.\<close>

record vision_env =
  vision_generate_content :: "bytes \<Rightarrow> string \<Rightarrow> exn + string option"

definition degraded_record :: "string \<Rightarrow> string \<Rightarrow> json" where
  "degraded_record raw question =
     JObj [(''subject'', JStr ''General''),
           (''topic'', JStr ''Unknown''),
           (''context'', JStr raw),
           (''question'', JStr question)]"

text \<open>The end of \<^verbatim>\<open>analyze_photo\<close>: the \<^verbatim>\<open>logger.info\<close> call reads
  \<^verbatim>\<open>result.get\<close> twice, then the result is returned.\<close>

definition logged_result :: "json \<Rightarrow> exn + json" where
  "logged_result result =
     (case py_get result ''subject'' JNull of
        Inl e \<Rightarrow> Inl e
      | Inr subject \<Rightarrow>
          (case py_get result ''topic'' JNull of
             Inl e \<Rightarrow> Inl e
           | Inr topic \<Rightarrow> Inr result))"

definition analyze_photo :: "pylib \<Rightarrow> vision_env \<Rightarrow> json \<Rightarrow> string \<Rightarrow> exn + json" where
  "analyze_photo lib venv photo_b64 question =
     (case b64decode lib photo_b64 of
        Inl e \<Rightarrow> Inl e
      | Inr image_bytes \<Rightarrow>
     (case vision_generate_content venv image_bytes (VISION_PROMPT question) of
        Inl e \<Rightarrow> Inl e
      | Inr None \<Rightarrow> Inl (AttributeError JNull ''strip'')
      | Inr (Some response_text) \<Rightarrow>
     (case strip_fences response_text of
        Inl e \<Rightarrow> Inl e
      | Inr raw \<Rightarrow>
          (case json_loads lib raw of
             Loaded result \<Rightarrow> logged_result result
           | JSONDecodeError \<Rightarrow> logged_result (degraded_record raw question)
           | LoadsRaised exc \<Rightarrow> Inl exc))))"

section \<open>Scripting stage: agents/script\_agent.py\<close>

definition SCRIPT_PROMPT :: "string \<Rightarrow> string \<Rightarrow> string \<Rightarrow> string \<Rightarrow> string" where
  \<open>SCRIPT_PROMPT subject topic context question = join_lines
     [''You are an expert educator creating a vivid, narrated explainer for a student.'',
      [],
      ''Subject: '' @ subject,
      ''Topic: '' @ topic,
      ''Image Context: '' @ context,
      ''Student'' @ [CHR 0x27] @ ''s Question: '' @ question,
      [],
      ''Create a clear, engaging explainer broken into 3-5 sections. Each section must have:'',
      ''- narration: 2-4 spoken sentences that explain one key concept clearly (age-appropriate, enthusiastic)'',
      ''- image_prompt: a detailed prompt for an AI image generator to create a clear educational diagram/illustration for that concept'',
      [],
      ''Respond ONLY with a JSON object (no markdown, no extra text):'',
      ''{'',
      ''  "title": "<catchy title for this explainer>",'',
      ''  "intro": "<one sentence welcome/intro the narrator will say first>",'',
      ''  "sections": ['',
      ''    {'',
      ''      "id": 1,'',
      ''      "narration": "<spoken text for this section>",'',
      ''      "image_prompt": "<detailed Imagen prompt: style=educational diagram, clean white background, labeled, colorful>"'',
      ''    }'',
      ''  ],'',
      ''  "outro": "<one sentence closing the explainer>"'',
      ''}'']\<close>

record script_env =
  script_generate_content :: "string \<Rightarrow> exn + string option"

text \<open>Once \<^verbatim>\<open>vision_result.get("subject", ..)\<close> has returned,
  \<open>vision_result\<close> is a dictionary and the later \<^verbatim>\<open>get\<close> calls on it are
  \<open>field\<close>. The script substituted when the answer is not JSON: \<open>topic\<close> and \<open>context\<close> are
  what \<^verbatim>\<open>vision_result.get\<close> gave with the fallback script's defaults.\<close>

definition fallback_script :: "pylib \<Rightarrow> json \<Rightarrow> json \<Rightarrow> json \<Rightarrow> json" where
  "fallback_script lib title_topic context prompt_topic =
     JObj [(''title'', title_topic),
           (''intro'', JStr ''Let me explain this for you.''),
           (''sections'',
              JList [JObj [(''id'', JInt 1),
                           (''narration'', context),
                           (''image_prompt'',
                              JStr (''Educational diagram about '' @ format_value lib prompt_topic
                                    @ '', clean white background, colorful, labeled''))]]),
           (''outro'', JStr ''I hope that helps!'')]"

definition script_prompt :: "pylib \<Rightarrow> json \<Rightarrow> string" where
  "script_prompt lib vision_result =
     SCRIPT_PROMPT
       (format_value lib (field vision_result ''subject'' (JStr ''General'')))
       (format_value lib (field vision_result ''topic'' (JStr ''the topic'')))
       (format_value lib (field vision_result ''context'' (JStr [])))
       (format_value lib (field vision_result ''question'' (JStr [])))"

text \<open>The end of \<^verbatim>\<open>generate_script\<close>: the \<^verbatim>\<open>logger.info\<close> call reads
  \<^verbatim>\<open>script.get("title")\<close> and \<^verbatim>\<open>len(script.get("sections", []))\<close>,
  then the script is returned.\<close>

definition logged_script :: "json \<Rightarrow> exn + json" where
  "logged_script script =
     (case py_get script ''title'' JNull of
        Inl e \<Rightarrow> Inl e
      | Inr title \<Rightarrow>
          (case py_get script ''sections'' (JList []) of
             Inl e \<Rightarrow> Inl e
           | Inr sections \<Rightarrow>
               (case py_len sections of
                  Inl e \<Rightarrow> Inl e
                | Inr n \<Rightarrow> Inr script)))"

definition generate_script :: "pylib \<Rightarrow> script_env \<Rightarrow> json \<Rightarrow> exn + json" where
  "generate_script lib tenv vision_result =
     (case py_get vision_result ''subject'' (JStr ''General'') of
        Inl e \<Rightarrow> Inl e
      | Inr subject \<Rightarrow>
     (case script_generate_content tenv (script_prompt lib vision_result) of
        Inl e \<Rightarrow> Inl e
      | Inr None \<Rightarrow> Inl (AttributeError JNull ''strip'')
      | Inr (Some response_text) \<Rightarrow>
     (case strip_fences response_text of
        Inl e \<Rightarrow> Inl e
      | Inr raw \<Rightarrow>
          (case json_loads lib raw of
             Loaded script \<Rightarrow> logged_script script
           | JSONDecodeError \<Rightarrow>
               logged_script
                 (fallback_script lib
                    (field vision_result ''topic'' (JStr ''Explainer''))
                    (field vision_result ''context'' (JStr ''Let me walk you through this.''))
                    (field vision_result ''topic'' (JStr ''the topic'')))
           | LoadsRaised exc \<Rightarrow> Inl exc))))"

section \<open>Pipeline orchestrator: agents/coordinator.py\<close>

text \<open>The \<^verbatim>\<open>except Exception\<close> handler of \<^verbatim>\<open>run_pipeline\<close>.\<close>

definition failed :: "exn \<Rightarrow> event list" where
  "failed exc = [Error (''Something went wrong: '' @ exn_msg exc), Done]"

text \<open>Phases 1 and 2, which run one after the other: the events queued, and the script or
  the exception that leaves the \<^verbatim>\<open>try\<close> body.\<close>

definition sequential_phases ::
  "pylib \<Rightarrow> vision_env \<Rightarrow> script_env \<Rightarrow> json \<Rightarrow> string \<Rightarrow> event list \<times> (exn + json)" where
  "sequential_phases lib venv tenv photo_b64 question =
     (case analyze_photo lib venv photo_b64 question of
        Inl exc \<Rightarrow> ([Status ''Analyzing your image...''], Inl exc)
      | Inr vision_result \<Rightarrow>
     (case py_get vision_result ''subject'' JNull of
        Inl exc \<Rightarrow> ([Status ''Analyzing your image...''], Inl exc)
      | Inr subject \<Rightarrow>
     (case py_get vision_result ''topic'' JNull of
        Inl exc \<Rightarrow> ([Status ''Analyzing your image...''], Inl exc)
      | Inr topic \<Rightarrow>
     (case generate_script lib tenv vision_result of
        Inl exc \<Rightarrow>
          ([Status ''Analyzing your image...'', Meta subject topic,
            Status ''Preparing your explainer...''], Inl exc)
      | Inr script \<Rightarrow>
     (case py_get script ''title'' (JStr ''Your Explainer'') of
        Inl exc \<Rightarrow>
          ([Status ''Analyzing your image...'', Meta subject topic,
            Status ''Preparing your explainer...''], Inl exc)
      | Inr title \<Rightarrow>
          ([Status ''Analyzing your image...'', Meta subject topic,
            Status ''Preparing your explainer...'', Title title], Inr script))))))"

text \<open>
  Phase 3: \<^verbatim>\<open>asyncio.gather\<close> of the media stage (producer 0) and the narration
  stage (producer 1), then \<^verbatim>\<open>done\<close>. This \<^verbatim>\<open>gather\<close> does not collect
  exceptions: when a stage raises, the exception reaches the handler at once and the other
  stage keeps running, so the handler's two events share the queue with what the other
  stage still puts.
\<close>

definition parallel_phase ::
  "pylib \<Rightarrow> imagen_env \<Rightarrow> storage_env \<Rightarrow> live_env \<Rightarrow> nat list \<Rightarrow> nat list \<Rightarrow> json \<Rightarrow> event list" where
  "parallel_phase lib ienv senv live media_sched sched script =
     (case snd (generate_all_images lib ienv senv media_sched script) of
        Inr u \<Rightarrow>
          (case narrate_script lib live script of
             Inr narration \<Rightarrow>
               interleave sched [fst (generate_all_images lib ienv senv media_sched script), narration]
                 @ [Done]
           | Inl exc \<Rightarrow>
               interleave sched [fst (generate_all_images lib ienv senv media_sched script), failed exc])
      | Inl exc \<Rightarrow>
          (case narrate_script lib live script of
             Inr narration \<Rightarrow>
               interleave sched
                 [fst (generate_all_images lib ienv senv media_sched script) @ failed exc, narration]
           | Inl exc' \<Rightarrow> fst (generate_all_images lib ienv senv media_sched script) @ failed exc))"

definition run_pipeline ::
  "pylib \<Rightarrow> vision_env \<Rightarrow> script_env \<Rightarrow> imagen_env \<Rightarrow> storage_env \<Rightarrow> live_env
     \<Rightarrow> nat list \<Rightarrow> nat list \<Rightarrow> json \<Rightarrow> string \<Rightarrow> event list" where
  "run_pipeline lib venv tenv ienv senv live media_sched sched photo_b64 question =
     (case snd (sequential_phases lib venv tenv photo_b64 question) of
        Inl exc \<Rightarrow> fst (sequential_phases lib venv tenv photo_b64 question) @ failed exc
      | Inr script \<Rightarrow>
          fst (sequential_phases lib venv tenv photo_b64 question)
            @ parallel_phase lib ienv senv live media_sched sched script)"

section \<open>Session controller: api/websocket.py\<close>

text \<open>
  A pipeline task is the events its job will still put on the queue if it runs on, and
  whether \<^verbatim>\<open>task.done()\<close> holds. The connection state is the \<^verbatim>\<open>session\<close>
  dictionary (\<^verbatim>\<open>photo_b64\<close>, \<^verbatim>\<open>pipeline_task\<close>), the queue with its
  \<^verbatim>\<open>None\<close> sentinel, what the client has been sent, and whether the sender task
  is still draining. The transport is taken to be up: sends succeed.
\<close>

record task =
  pending :: "event list"
  is_done :: bool

record conn =
  stored_photo_b64 :: json
  pipeline_task :: "task option"
  send_queue :: "event option list"
  client_received :: "event list"
  sender_alive :: bool

text \<open>On accept: nothing stored, no task, an empty queue, the sender started.\<close>

definition accepted :: conn where
  "accepted = \<lparr> stored_photo_b64 = JNull, pipeline_task = None, send_queue = [],
                 client_received = [], sender_alive = True \<rparr>"

text \<open>One round of \<^verbatim>\<open>sender\<close>: forward the head of the queue, or return on the
  sentinel.\<close>

definition sender_step :: "conn \<Rightarrow> conn" where
  "sender_step s =
     (if \<not> sender_alive s then s
      else (case send_queue s of
              [] \<Rightarrow> s
            | None # q \<Rightarrow> s\<lparr> send_queue := q, sender_alive := False \<rparr>
            | Some msg # q \<Rightarrow> s\<lparr> send_queue := q, client_received := client_received s @ [msg] \<rparr>))"

text \<open>One step of the running job: its next event goes on the queue; with nothing left
  it is done.\<close>

definition job_step :: "conn \<Rightarrow> conn" where
  "job_step s =
     (case pipeline_task s of
        None \<Rightarrow> s
      | Some t \<Rightarrow>
          if is_done t then s
          else (case pending t of
                  [] \<Rightarrow> s\<lparr> pipeline_task := Some (t\<lparr> is_done := True \<rparr>) \<rparr>
                | e # es \<Rightarrow>
                    s\<lparr> send_queue := send_queue s @ [Some e],
                       pipeline_task := Some (t\<lparr> pending := es \<rparr>) \<rparr>))"

definition put :: "event option \<Rightarrow> conn \<Rightarrow> conn" where
  "put item s = s\<lparr> send_queue := send_queue s @ [item] \<rparr>"

text \<open>
  \<^verbatim>\<open>cancel_pipeline\<close>: a task that is not done is cancelled and awaited. The
  cancelled job puts nothing more (the \<^verbatim>\<open>CancelledError\<close> passes every
  \<^verbatim>\<open>except Exception\<close>); while the handler waits the sender may forward \<open>k\<close>
  messages. Without such a task nothing is awaited.
\<close>

definition cancel_pipeline :: "nat \<Rightarrow> conn \<Rightarrow> conn" where
  "cancel_pipeline k s =
     (case pipeline_task s of
        None \<Rightarrow> s
      | Some t \<Rightarrow>
          if is_done t then s
          else (sender_step ^^ k) (s\<lparr> pipeline_task := Some \<lparr> pending = [], is_done = True \<rparr> \<rparr>))"

text \<open>\<^verbatim>\<open>while not send_queue.empty(): send_queue.get_nowait()\<close>\<close>

definition reset_queue :: "conn \<Rightarrow> conn" where
  "reset_queue s = s\<lparr> send_queue := [] \<rparr>"

text \<open>What the handler's loop does with one message: go on in a new state, or leave the
  loop. \<open>Closed\<close> carries the state after the \<^verbatim>\<open>finally\<close> block has put its
  sentinel.\<close>

datatype step = Continue conn | Closed conn

definition finally_block :: "nat \<Rightarrow> conn \<Rightarrow> conn" where
  "finally_block k s = put None (cancel_pipeline k s)"

text \<open>\<^verbatim>\<open>except Exception\<close> around the loop: the error goes to the client directly,
  not through the queue.\<close>

definition crashed :: "exn \<Rightarrow> nat \<Rightarrow> conn \<Rightarrow> step" where
  "crashed exc k s =
     Closed (finally_block k (s\<lparr> client_received := client_received s @ [Error (exn_msg exc)] \<rparr>))"

definition on_photo :: "json \<Rightarrow> nat \<Rightarrow> conn \<Rightarrow> step" where
  "on_photo msg k s =
     (if \<not> py_truthy (field msg ''data'' (JStr []))
      then Continue (put (Some (Error ''Empty photo data.'')) s)
      else (case py_len (field msg ''data'' (JStr [])) of
              Inl exc \<Rightarrow> crashed exc k (s\<lparr> stored_photo_b64 := field msg ''data'' (JStr []) \<rparr>)
            | Inr n \<Rightarrow>
                Continue (put (Some (Status ''Photo received. Ask your question!''))
                            (s\<lparr> stored_photo_b64 := field msg ''data'' (JStr []) \<rparr>))))"

text \<open>\<open>run\<close> is \<^verbatim>\<open>run_pipeline\<close> with its collaborators and schedules: the events
  the job for a photo and a question will put.\<close>

definition on_question :: "(json \<Rightarrow> string \<Rightarrow> event list) \<Rightarrow> json \<Rightarrow> nat \<Rightarrow> conn \<Rightarrow> step" where
  "on_question run msg k s =
     (case field msg ''text'' (JStr []) of
        JStr txt \<Rightarrow>
          if py_strip txt = [] then Continue (put (Some (Error ''Question text is empty.'')) s)
          else if \<not> py_truthy (stored_photo_b64 s)
          then Continue (put (Some (Error ''Please capture a photo first.'')) s)
          else Continue
                 ((reset_queue (cancel_pipeline k s))
                    \<lparr> pipeline_task :=
                        Some \<lparr> pending = run (stored_photo_b64 s) (py_strip txt), is_done = False \<rparr> \<rparr>)
      | v \<Rightarrow> crashed (AttributeError v ''strip'') k s)"

definition on_stop :: "nat \<Rightarrow> conn \<Rightarrow> step" where
  "on_stop k s = Closed (finally_block k (put None (put (Some Done) (cancel_pipeline k s))))"

definition handle_message ::
  "pylib \<Rightarrow> (json \<Rightarrow> string \<Rightarrow> event list) \<Rightarrow> string \<Rightarrow> nat \<Rightarrow> conn \<Rightarrow> step" where
  "handle_message lib run raw k s =
     (case json_loads lib raw of
        JSONDecodeError \<Rightarrow> Continue s
      | LoadsRaised exc \<Rightarrow> crashed exc k s
      | Loaded msg \<Rightarrow>
          (case py_get msg ''type'' JNull of
             Inl exc \<Rightarrow> crashed exc k s
           | Inr msg_type \<Rightarrow>
               if msg_type = JStr ''photo'' then on_photo msg k s
               else if msg_type = JStr ''question'' then on_question run msg k s
               else if msg_type = JStr ''stop'' then on_stop k s
               else Continue s))"

section \<open>Vocabulary of the properties\<close>

text \<open>Predicates and projections the statements below use. \<open>section_block\<close> is
  everything the narration loop queues for one section submitted as turn \<open>n\<close>, when the
  turn does not raise.\<close>

definition is_content_of :: "json \<Rightarrow> event \<Rightarrow> bool" where
  "is_content_of sid e = (case e of Audio j d \<Rightarrow> j = sid | Text j c \<Rightarrow> j = sid | _ \<Rightarrow> False)"

fun is_marker :: "event \<Rightarrow> bool" where
  "is_marker (SectionStart i) = True"
| "is_marker (SectionEnd i) = True"
| "is_marker e = False"

fun is_dict :: "json \<Rightarrow> bool" where
  "is_dict (JObj kvs) = True"
| "is_dict v = False"

definition section_block :: "pylib \<Rightarrow> live_env \<Rightarrow> nat \<Rightarrow> json \<Rightarrow> event list" where
  "section_block lib env n s =
     SectionStart (field s ''id'' (JInt 0))
       # fst (narrate_text lib env n (field s ''narration'' (JStr [])) (field s ''id'' (JInt 0)))
       @ [SectionEnd (field s ''id'' (JInt 0))]"

text \<open>\<open>section_pairs\<close> is one \<^verbatim>\<open>section_start\<close>, \<^verbatim>\<open>section_end\<close> pair
  for each section, in order. \<open>marks_upto m secs evs\<close>: the start and end events among
  \<open>evs\<close> are the pairs of the first \<open>m\<close> sections, followed by nothing or by the start
  of the next section alone.\<close>

definition section_pairs :: "json list \<Rightarrow> event list" where
  "section_pairs secs =
     concat (map (\<lambda>s. [SectionStart (field s ''id'' (JInt 0)), SectionEnd (field s ''id'' (JInt 0))]) secs)"

definition marks_upto :: "nat \<Rightarrow> json list \<Rightarrow> event list \<Rightarrow> bool" where
  "marks_upto m secs evs =
     (m \<le> length secs
      \<and> (filter is_marker evs = section_pairs (take m secs)
         \<or> (m < length secs
            \<and> filter is_marker evs
                = section_pairs (take m secs) @ [SectionStart (field (secs ! m) ''id'' (JInt 0))])))"

text \<open>A section for which the image capability gives nothing to upload: the call raises, returns
  no image, an image without bytes or with empty bytes, or the prompt is not a string.\<close>

definition image_missing :: "imagen_env \<Rightarrow> nat \<Rightarrow> json \<Rightarrow> bool" where
  "image_missing ienv i section =
     (case generate_image ienv i (field section ''image_prompt'' (JStr ''educational diagram'')) of
        Inl exc \<Rightarrow> True
      | Inr None \<Rightarrow> True
      | Inr (Some image_bytes) \<Rightarrow> image_bytes = [])"

text \<open>The \<^verbatim>\<open>section_id\<close> field of an event, for the events that have one.\<close>

fun event_section :: "event \<Rightarrow> json option" where
  "event_section (SectionStart i) = Some i"
| "event_section (Audio i d) = Some i"
| "event_section (Text i c) = Some i"
| "event_section (ImageUrl i u c) = Some i"
| "event_section (SectionEnd i) = Some i"
| "event_section e = None"

text \<open>The text an agent hands to \<^verbatim>\<open>json.loads\<close>: the answer trimmed and without its
  code fence.\<close>

definition cleaned :: "string \<Rightarrow> string" where
  "cleaned response_text = (case strip_fences response_text of Inr raw \<Rightarrow> raw | Inl e \<Rightarrow> [])"

text \<open>Kinds of events: the \<^verbatim>\<open>meta\<close> event, and the events the narration stage can queue.\<close>

fun is_meta :: "event \<Rightarrow> bool" where
  "is_meta (Meta s t) = True"
| "is_meta e = False"

fun is_narration_event :: "event \<Rightarrow> bool" where
  "is_narration_event (SectionStart i) = True"
| "is_narration_event (SectionEnd i) = True"
| "is_narration_event (Audio i d) = True"
| "is_narration_event (Text i c) = True"
| "is_narration_event (Error m) = True"
| "is_narration_event e = False"

subsection \<open>Sample inputs\<close>

text \<open>Concrete collaborators and scripts on which the theorems are instantiated. The
  library functions agree with Python's on the values they are applied to below:
  \<^verbatim>\<open>"QUJD"\<close> is the base64 text of the bytes \<^verbatim>\<open>ABC\<close>, and \<^verbatim>\<open>"QUJ"\<close>
  lacks its padding.\<close>

definition demo_json_no_ids :: string where
  \<open>demo_json_no_ids = ''{"sections": [{"narration": "Leaves make sugar."}]}''\<close>

definition demo_parsed_no_ids :: json where
  "demo_parsed_no_ids = JObj [(''sections'', JList [JObj [(''narration'', JStr ''Leaves make sugar.'')]])]"

definition demo_lib :: pylib where
  "demo_lib = \<lparr> b64decode = (\<lambda>v. if v = JStr ''QUJD'' then Inr [0x41, 0x42, 0x43] else Inl (Exn ''binascii.Error'' ''Incorrect padding'')),
                b64encode = (\<lambda>d. if d = [0x41, 0x42, 0x43] then ''QUJD'' else []),
                json_loads = (\<lambda>s. if s = ''{}'' then Loaded (JObj [])
                                 else if s = demo_json_no_ids then Loaded demo_parsed_no_ids
                                 else JSONDecodeError),
                format_value = (\<lambda>v. case v of JInt i \<Rightarrow> (if i = 1 then ''1'' else if i = 2 then ''2'' else if i = 3 then ''3'' else ''0'') | JStr s \<Rightarrow> s | _ \<Rightarrow> ''None'') \<rparr>"

definition demo_turn :: "response list" where
  "demo_turn =
     [\<lparr> resp_data = Some [0x41, 0x42, 0x43], resp_text = None, resp_server_content = None \<rparr>,
      \<lparr> resp_data = None, resp_text = Some ''hi'',
        resp_server_content = Some \<lparr> turn_complete = Some True \<rparr> \<rparr>]"

definition demo_live :: live_env where
  "demo_live = \<lparr> connect_fault = None, turn = (\<lambda>n t. (demo_turn, None)), close_fault = None \<rparr>"

definition demo_sections :: "json list" where
  "demo_sections =
     [JObj [(''id'', JInt 1), (''narration'', JStr ''one''), (''image_prompt'', JStr ''a leaf'')],
      JObj [(''id'', JInt 2), (''narration'', JStr ''two''), (''image_prompt'', JStr ''a root'')]]"

definition demo_script :: json where
  "demo_script = JObj
     [(''title'', JStr ''Leaves''),
      (''intro'', JStr ''Welcome''),
      (''sections'', JList demo_sections),
      (''outro'', JStr ''Bye'')]"

text \<open>Media collaborators that fail on the second of three sections.\<close>

definition demo_imagen :: imagen_env where
  "demo_imagen = \<lparr> generate_images = (\<lambda>i p. if i = 1 then Inr [] else Inr [Some [0x89, 0x50]]) \<rparr>"

definition demo_storage :: storage_env where
  "demo_storage = \<lparr> bucket_fault = None, uuid4_hex = (\<lambda>i. ''c0ffee''),
       upload_from_string = (\<lambda>d b c. None),
       generate_signed_url = (\<lambda>d. Inr (''https://storage/'' @ d)) \<rparr>"

definition demo_three :: "json list" where
  "demo_three =
     [JObj [(''id'', JInt 1), (''narration'', JStr ''one''), (''image_prompt'', JStr ''a leaf'')],
      JObj [(''id'', JInt 2), (''narration'', JStr ''two''), (''image_prompt'', JStr ''a root'')],
      JObj [(''id'', JInt 3), (''narration'', JStr ''three''), (''image_prompt'', JStr ''a stem'')]]"

definition demo_script3 :: json where
  "demo_script3 = JObj [(''title'', JStr ''Plants''), (''sections'', JList demo_three)]"

text \<open>A section without an \<^verbatim>\<open>id\<close>, and a script without sections.\<close>

definition demo_no_id :: json where
  "demo_no_id = JObj [(''narration'', JStr ''untitled''), (''image_prompt'', JStr ''a seed'')]"

definition demo_empty_script :: json where
  "demo_empty_script = JObj [(''title'', JStr ''Nothing''), (''intro'', JStr ''Welcome''),
                             (''sections'', JList []), (''outro'', JStr ''Bye'')]"

text \<open>An analysis answer that is not JSON, an analysis record, and a text collaborator that
  gives a fixed answer.\<close>

definition demo_answer :: string where
  "demo_answer = ''Sorry, I cannot read this image.'' @ [CHR 0x0A]"

definition demo_vision :: vision_env where
  "demo_vision = \<lparr> vision_generate_content = (\<lambda>image_bytes prompt. Inr (Some demo_answer)) \<rparr>"

definition demo_record :: json where
  "demo_record = JObj [(''subject'', JStr ''Biology''), (''topic'', JStr ''photosynthesis''),
                       (''context'', JStr ''A leaf diagram.''), (''question'', JStr ''What is this?'')]"

definition demo_text_env :: "string \<Rightarrow> script_env" where
  "demo_text_env answer = \<lparr> script_generate_content = (\<lambda>prompt. Inr (Some answer)) \<rparr>"

text \<open>A text collaborator that is unreachable.\<close>

definition demo_text_down :: script_env where
  "demo_text_down = \<lparr> script_generate_content =
      (\<lambda>prompt. Inl (Exn ''ServiceUnavailable'' ''503 The service is currently unavailable.'')) \<rparr>"

text \<open>Control messages as the client sends them, a library that parses them, and the job
  the sample collaborators give.\<close>

definition demo_question :: string where
  \<open>demo_question = ''{"type": "question", "text": "What is this?"}''\<close>

definition demo_blank_question :: string where
  \<open>demo_blank_question = ''{"type": "question", "text": " "}''\<close>

definition demo_ws_lib :: pylib where
  "demo_ws_lib = demo_lib \<lparr> json_loads :=
      (\<lambda>s. if s = demo_question
            then Loaded (JObj [(''type'', JStr ''question''), (''text'', JStr ''What is this?'')])
            else if s = demo_blank_question
            then Loaded (JObj [(''type'', JStr ''question''), (''text'', JStr '' '')])
            else JSONDecodeError) \<rparr>"

definition demo_run :: "json \<Rightarrow> string \<Rightarrow> event list" where
  "demo_run = run_pipeline demo_lib demo_vision (demo_text_env ''Sure thing!'') demo_imagen
                demo_storage demo_live [0] [1, 0, 1]"

text \<open>A connection with a photo stored, a job half way, and two of its events still queued.\<close>

definition demo_conn :: conn where
  "demo_conn = \<lparr> stored_photo_b64 = JStr ''QUJD'',
                  pipeline_task = Some \<lparr> pending = [Title (JStr ''Unknown''), Done], is_done = False \<rparr>,
                  send_queue = [Some (Meta (JStr ''General'') (JStr ''Unknown'')),
                                Some (Status ''Preparing your explainer...'')],
                  client_received = [Status ''Analyzing your image...''],
                  sender_alive = True \<rparr>"

text \<open>An answer of a thousand opening brackets, on which \<^verbatim>\<open>json.loads\<close> raises
  \<^verbatim>\<open>RecursionError\<close>, and a library that says so.\<close>

definition demo_deep :: string where
  "demo_deep = replicate 1000 (CHR ''['')"

definition RecursionError :: exn where
  "RecursionError = Exn ''RecursionError''
     ''maximum recursion depth exceeded while decoding a JSON array from a unicode string''"

definition demo_deep_lib :: pylib where
  "demo_deep_lib = demo_lib \<lparr> json_loads :=
      (\<lambda>s. if s = demo_deep then LoadsRaised RecursionError else json_loads demo_lib s) \<rparr>"

definition demo_deep_vision :: vision_env where
  "demo_deep_vision = \<lparr> vision_generate_content = (\<lambda>image_bytes prompt. Inr (Some demo_deep)) \<rparr>"

section \<open>Properties of the narration stage\<close>

lemma receive_loop_tagged: "list_all (is_content_of sid) (fst (receive_loop lib sid rs f))"
  by (induction rs) (auto simp: audio_events_def text_events_def is_content_of_def split: option.splits)

lemma receive_loop_no_fault: "snd (receive_loop lib sid rs None) = None"
  by (induction rs) auto

lemma narrate_text_tagged: "list_all (is_content_of sid) (fst (narrate_text lib env n t sid))"
  by (simp add: narrate_text_def receive_loop_tagged)

lemma narrate_text_no_fault: "snd (turn env n t) = None \<Longrightarrow> snd (narrate_text lib env n t sid) = None"
  by (simp add: narrate_text_def receive_loop_no_fault)

lemma is_dict_get: "is_dict s \<Longrightarrow> py_get s k d = Inr (field s k d)"
  by (cases s) (auto simp: field_def)

lemma narrate_sections_ok:
  assumes "\<forall>n t. snd (turn env n t) = None" and "list_all is_dict secs"
  shows "narrate_sections lib env n secs
         = (concat (map2 (section_block lib env) [n..<n + length secs] secs), None)"
  using assms(2)
proof (induction secs arbitrary: n)
  case Nil
  then show ?case by simp
next
  case (Cons s secs)
  have nf: "snd (narrate_text lib env n (field s ''narration'' (JStr [])) (field s ''id'' (JInt 0))) = None"
    using assms(1) by (simp add: narrate_text_no_fault)
  have "[n..<n + length (s # secs)] = n # [Suc n..<n + length (s # secs)]"
    by (rule upt_conv_Cons) simp
  then have up: "[n..<n + length (s # secs)] = n # [Suc n..<Suc n + length secs]"
    by simp
  obtain evs where nt:
    "narrate_text lib env n (field s ''narration'' (JStr [])) (field s ''id'' (JInt 0)) = (evs, None)"
    using nf by (cases "narrate_text lib env n (field s ''narration'' (JStr [])) (field s ''id'' (JInt 0))") auto
  from Cons.prems have d: "is_dict s" and ds: "list_all is_dict secs" by simp_all
  have ih: "narrate_sections lib env (Suc n) secs
         = (concat (map2 (section_block lib env) [Suc n..<Suc n + length secs] secs), None)"
    using Cons.IH[OF ds] .
  show ?case
    unfolding up
    by (simp add: is_dict_get[OF d] nt ih section_block_def)
qed

lemma markers_content: "list_all (is_content_of sid) evs \<Longrightarrow> filter is_marker evs = []"
  by (induction evs) (auto simp: is_content_of_def split: event.splits)

lemma markers_block: "filter is_marker (section_block lib env n s)
   = [SectionStart (field s ''id'' (JInt 0)), SectionEnd (field s ''id'' (JInt 0))]"
  by (simp add: section_block_def markers_content[OF narrate_text_tagged])

lemma markers_blocks: "length ns = length secs \<Longrightarrow> filter is_marker (concat (map2 (section_block lib env) ns secs))
   = concat (map (\<lambda>s. [SectionStart (field s ''id'' (JInt 0)), SectionEnd (field s ''id'' (JInt 0))]) secs)"
  by (induction ns secs rule: list_induct2) (simp_all add: markers_block)

lemma demo_turn_events:
  "fst (narrate_text demo_lib demo_live n t sid) = [Audio sid ''QUJD'', Text sid ''hi'']"
  by (simp add: narrate_text_def demo_live_def demo_turn_def demo_lib_def audio_events_def
      text_events_def is_turn_complete_def)

lemma marks_upto_none: "filter is_marker evs = [] \<Longrightarrow> marks_upto 0 secs evs"
  by (simp add: marks_upto_def section_pairs_def)

lemma marks_upto_step:
  assumes "marks_upto m rest evs" and "filter is_marker content = []"
  shows "marks_upto (Suc m) (s # rest)
           (SectionStart (field s ''id'' (JInt 0)) # content @ SectionEnd (field s ''id'' (JInt 0)) # evs)"
  using assms by (auto simp: marks_upto_def section_pairs_def)

lemma narrate_sections_marks:
  "\<exists>m. marks_upto m secs (fst (narrate_sections lib env n secs))"
proof (induction secs arbitrary: n)
  case Nil
  show ?case
    by (rule exI[of _ 0]) (simp add: marks_upto_none)
next
  case (Cons s rest)
  show ?case
  proof (cases "py_get s ''id'' (JInt 0)")
    case (Inl e)
    then show ?thesis
      by (intro exI[of _ 0]) (simp add: marks_upto_none)
  next
    case (Inr section_id)
    then obtain kvs where s: "s = JObj kvs"
      by (cases s) auto
    have sid: "section_id = field s ''id'' (JInt 0)"
      using Inr by (simp add: field_def)
    have gn: "py_get s ''narration'' (JStr []) = Inr (field s ''narration'' (JStr []))"
      by (simp add: s field_def)
    obtain content r where nt:
      "narrate_text lib env n (field s ''narration'' (JStr [])) section_id = (content, r)"
      by (cases "narrate_text lib env n (field s ''narration'' (JStr [])) section_id") auto
    have c: "filter is_marker content = []"
      using markers_content[OF narrate_text_tagged[of section_id lib env n "field s ''narration'' (JStr [])"]] nt
      by simp
    show ?thesis
    proof (cases r)
      case None
      from Cons[of "Suc n"] obtain m where m: "marks_upto m rest (fst (narrate_sections lib env (Suc n) rest))"
        by blast
      have "fst (narrate_sections lib env n (s # rest))
          = SectionStart (field s ''id'' (JInt 0)) # content
              @ SectionEnd (field s ''id'' (JInt 0)) # fst (narrate_sections lib env (Suc n) rest)"
        using Inr gn nt None by (simp add: sid)
      then show ?thesis
        using marks_upto_step[OF m c] by auto
    next
      case (Some e)
      have "fst (narrate_sections lib env n (s # rest)) = SectionStart (field s ''id'' (JInt 0)) # content"
        using Inr gn nt Some by (simp add: sid)
      then have "marks_upto 0 (s # rest) (fst (narrate_sections lib env n (s # rest)))"
        using c by (simp add: marks_upto_def section_pairs_def)
      then show ?thesis by blast
    qed
  qed
qed

lemma and_then_fst:
  "fst (and_then a b) = (if snd a = None then fst a @ fst b else fst a)"
  by (auto simp: and_then_def split: option.splits)

lemma session_body_marks:
  "filter is_marker (fst (session_body lib env (JList secs) intro outro)) = []
   \<or> filter is_marker (fst (session_body lib env (JList secs) intro outro))
       = filter is_marker (fst (narrate_sections lib env (if py_truthy intro then 1 else 0) secs))"
  by (simp add: session_body_def and_then_fst narrate_intro_def narrate_outro_def narrate_loop_def
      markers_content[OF narrate_text_tagged])

lemma narrate_script_marks:
  assumes "py_get script ''sections'' (JList []) = Inr (JList secs)"
  shows "\<exists>m evs. narrate_script lib env script = Inr evs \<and> marks_upto m secs evs"
proof -
  from assms obtain kvs where script: "script = JObj kvs"
    by (cases script) auto
  define intro where "intro = field script ''intro'' (JStr [])"
  define outro where "outro = field script ''outro'' (JStr [])"
  define body where "body = session_body lib env (JList secs) intro outro"
  have run: "\<exists>evs. narrate_script lib env script = Inr evs
      \<and> (filter is_marker evs = [] \<or> filter is_marker evs = filter is_marker (fst body))"
    using assms
    by (auto simp: narrate_script_def script field_def intro_def outro_def body_def with_session_def
        split: option.splits)
  then obtain evs where evs: "narrate_script lib env script = Inr evs"
    and m: "filter is_marker evs = [] \<or> filter is_marker evs = filter is_marker (fst body)"
    by blast
  from session_body_marks[of lib env secs intro outro] m
  have "filter is_marker evs = []
      \<or> filter is_marker evs
          = filter is_marker (fst (narrate_sections lib env (if py_truthy intro then 1 else 0) secs))"
    unfolding body_def by metis
  moreover obtain m' where
    "marks_upto m' secs (fst (narrate_sections lib env (if py_truthy intro then 1 else 0) secs))"
    using narrate_sections_marks by blast
  ultimately have "\<exists>m. marks_upto m secs evs"
    by (metis marks_upto_def marks_upto_none)
  with evs show ?thesis by blast
qed

text \<open>
  C1. Take a script whose sections are a list of dictionaries. When the speech session
  opens, closes and answers every turn without raising, \<^verbatim>\<open>narrate_script\<close> queues:
  the intro's audio and text under id 0 if the intro is non-empty, then for every section in
  document order its \<^verbatim>\<open>section_start\<close>, its audio and text, and its
  \<^verbatim>\<open>section_end\<close>, then the outro's audio and text under id -1 if the outro is
  non-empty; the start and end events of the run are exactly one pair for each section, in
  document order, with no pair inside another and none for intro or outro. Whatever the
  session does, the start and end events are such pairs for the first sections in document
  order, with at most the start of the next section after them (the section in which the
  session raised). Every audio or text event of a turn carries the id that turn was
  narrated under.
\<close>

theorem narration_brackets_sections:
  assumes secs: "py_get script ''sections'' (JList []) = Inr (JList secs)"
    and dicts: "list_all is_dict secs"
    and intro: "intro = field script ''intro'' (JStr [])"
    and outro: "outro = field script ''outro'' (JStr [])"
    and k: "k = (if py_truthy intro then 1 else 0)"
    and evs: "evs = (if py_truthy intro then fst (narrate_text lib env 0 intro (JInt 0)) else [])
                 @ concat (map2 (section_block lib env) [k..<k + length secs] secs)
                 @ (if py_truthy outro then fst (narrate_text lib env (k + length secs) outro (JInt (- 1))) else [])"
  shows "(connect_fault env = None \<and> close_fault env = None \<and> (\<forall>n t. snd (turn env n t) = None) \<longrightarrow>
            narrate_script lib env script = Inr evs \<and> filter is_marker evs = section_pairs secs)
       \<and> (\<exists>m evs'. narrate_script lib env script = Inr evs' \<and> marks_upto m secs evs')
       \<and> (\<forall>n t sid. list_all (is_content_of sid) (fst (narrate_text lib env n t sid)))"
proof -
  from secs obtain kvs where script: "script = JObj kvs"
    by (cases script) auto
  have gi: "py_get script ''intro'' (JStr []) = Inr intro"
    and go: "py_get script ''outro'' (JStr []) = Inr outro"
    by (simp_all add: script intro outro field_def)
  have tb: "turns_before_outro intro (JList secs) = k + length secs"
    by (simp add: turns_before_outro_def k)
  have mk: "filter is_marker evs = section_pairs secs"
    by (simp add: evs markers_blocks markers_content[OF narrate_text_tagged] section_pairs_def)
  have run: "narrate_script lib env script = Inr evs"
    if conn: "connect_fault env = None" and cl: "close_fault env = None"
      and turns: "\<forall>n t. snd (turn env n t) = None"
  proof -
    have loop: "narrate_loop lib env k (JList secs)
        = (concat (map2 (section_block lib env) [k..<k + length secs] secs), None)"
      by (simp add: narrate_loop_def narrate_sections_ok[OF turns dicts])
    have body: "session_body lib env (JList secs) intro outro = (evs, None)"
      using turns
      by (simp add: session_body_def and_then_def narrate_intro_def narrate_outro_def tb loop
          narrate_text_no_fault evs k[symmetric])
    show ?thesis
      by (simp add: narrate_script_def secs gi go with_session_def conn cl body)
  qed
  show ?thesis
    using run mk narrate_script_marks[OF secs, of lib env] by (simp add: narrate_text_tagged)
qed

theorem narration_brackets_sections_witness:
  "connect_fault demo_live = None \<and> close_fault demo_live = None
   \<and> (\<forall>n t. snd (turn demo_live n t) = None)
   \<and> list_all is_dict demo_sections
   \<and> narrate_script demo_lib demo_live demo_script
       = Inr [Audio (JInt 0) ''QUJD'', Text (JInt 0) ''hi'',
              SectionStart (JInt 1), Audio (JInt 1) ''QUJD'', Text (JInt 1) ''hi'', SectionEnd (JInt 1),
              SectionStart (JInt 2), Audio (JInt 2) ''QUJD'', Text (JInt 2) ''hi'', SectionEnd (JInt 2),
              Audio (JInt (- 1)) ''QUJD'', Text (JInt (- 1)) ''hi'']"
proof -
  have h1: "connect_fault demo_live = None" and h2: "close_fault demo_live = None"
    and h3: "\<forall>n t. snd (turn demo_live n t) = None"
    by (simp_all add: demo_live_def)
  have h4: "py_get demo_script ''sections'' (JList []) = Inr (JList demo_sections)"
    by (simp add: demo_script_def)
  have h5: "list_all is_dict demo_sections"
    by (simp add: demo_sections_def)
  have h6: "JStr ''Welcome'' = field demo_script ''intro'' (JStr [])"
    and h7: "JStr ''Bye'' = field demo_script ''outro'' (JStr [])"
    by (simp_all add: demo_script_def field_def)
  have h8: "(1::nat) = (if py_truthy (JStr ''Welcome'') then 1 else 0)"
    by simp
  have len: "length demo_sections = 2"
    by (simp add: demo_sections_def)
  have ix: "[(1::nat)..<1 + 2] = [1, 2]"
    by code_simp
  have run: "narrate_script demo_lib demo_live demo_script
      = Inr ((if py_truthy (JStr ''Welcome'') then fst (narrate_text demo_lib demo_live 0 (JStr ''Welcome'') (JInt 0)) else [])
             @ concat (map2 (section_block demo_lib demo_live) [1..<1 + length demo_sections] demo_sections)
             @ (if py_truthy (JStr ''Bye'') then fst (narrate_text demo_lib demo_live (1 + length demo_sections) (JStr ''Bye'') (JInt (- 1))) else []))"
    using narration_brackets_sections[OF h4 h5 h6 h7 h8 refl, of demo_live demo_lib] h1 h2 h3 by blast
  have blocks: "\<And>i j. concat (map2 (section_block demo_lib demo_live) [i, j] demo_sections)
      = [SectionStart (JInt 1), Audio (JInt 1) ''QUJD'', Text (JInt 1) ''hi'', SectionEnd (JInt 1),
         SectionStart (JInt 2), Audio (JInt 2) ''QUJD'', Text (JInt 2) ''hi'', SectionEnd (JInt 2)]"
    by (simp add: demo_sections_def section_block_def field_def demo_turn_events)
  show ?thesis
    using h1 h2 h3 h5 run by (simp add: len ix blocks demo_turn_events)
qed

section \<open>Properties of the media stage\<close>

lemma mset_concat_update:
  assumes "i < length xss" and "xss ! i = x # xs"
  shows "mset (concat xss) = add_mset x (mset (concat (xss[i := xs])))"
proof -
  have a: "xss = take i xss @ (x # xs) # drop (Suc i) xss"
    using assms by (metis id_take_nth_drop)
  have b: "xss[i := xs] = take i xss @ xs # drop (Suc i) xss"
    using assms(1) by (rule upd_conv_take_nth_drop)
  have "mset (concat xss) = mset (concat (take i xss @ (x # xs) # drop (Suc i) xss))"
    using a by simp
  also have "\<dots> = add_mset x (mset (concat (take i xss @ xs # drop (Suc i) xss)))"
    by simp
  finally show ?thesis by (simp add: b)
qed

lemma mset_interleave: "mset (interleave sched xss) = mset (concat xss)"
proof (induction sched arbitrary: xss)
  case Nil
  then show ?case by simp
next
  case (Cons i sched)
  show ?case
  proof (cases "i < length xss")
    case False
    then show ?thesis using Cons by simp
  next
    case True
    show ?thesis
    proof (cases "xss ! i")
      case Nil
      then show ?thesis using True Cons by simp
    next
      case (Cons x xs)
      then show ?thesis
        using True Cons.IH[of "xss[i := xs]"] mset_concat_update[OF True Cons]
        by simp
    qed
  qed
qed

lemma set_interleave: "set (interleave sched xss) = set (concat xss)"
  by (metis mset_interleave set_mset_mset)

lemma section_tasks_nth:
  "i < length items \<Longrightarrow>
     section_tasks lib ienv senv items ! i = generate_section_image lib ienv senv i (items ! i)"
  by (simp add: section_tasks_def)

lemma section_tasks_length: "length (section_tasks lib ienv senv items) = length items"
  by (simp add: section_tasks_def)

lemma interleave_none: "interleave sched [] = []"
  by (induction sched) simp_all

lemma all_images_list:
  assumes "py_get script ''sections'' (JList []) = Inr (JList items)"
  shows "generate_all_images lib ienv senv sched script
       = (interleave sched (map fst (section_tasks lib ienv senv items)), Inr ())"
proof (cases "items = []")
  case True
  then show ?thesis
    using assms by (simp add: generate_all_images_def section_tasks_def interleave_none)
next
  case False
  then show ?thesis
    using assms by (simp add: generate_all_images_def)
qed

lemma task_at_most_one: "length (fst (generate_section_image lib ienv senv i s)) \<le> 1"
  by (simp add: generate_section_image_def split: sum.splits option.splits)

lemma task_missing:
  "image_missing ienv i s \<Longrightarrow> fst (generate_section_image lib ienv senv i s) = []"
  by (cases s) (auto simp: generate_section_image_def image_missing_def field_def
      split: sum.splits option.splits)

lemma demo_upload:
  "upload_image_bytes demo_storage i [0x89, 0x50] (Some (''section_'' @ d @ ''.png'')) ''image/png''
     = Inr (''https://storage/images/c0ffee_section_'' @ d @ ''.png'')"
  by (simp add: upload_image_bytes_def demo_storage_def blob_name_def)

lemma demo_task_0:
  "generate_section_image demo_lib demo_imagen demo_storage 0 (demo_three ! 0)
     = ([ImageUrl (JInt 1) ''https://storage/images/c0ffee_section_1.png'' (JStr ''a leaf'')],
        Inr (Some ''https://storage/images/c0ffee_section_1.png''))"
  using demo_upload[of 0 "''1''"]
  by (simp add: generate_section_image_def demo_three_def generate_image_def demo_imagen_def demo_lib_def)

lemma demo_task_1:
  "generate_section_image demo_lib demo_imagen demo_storage 1 (demo_three ! 1) = ([], Inr None)"
  by (simp add: generate_section_image_def demo_three_def generate_image_def demo_imagen_def)

lemma demo_task_2:
  "generate_section_image demo_lib demo_imagen demo_storage 2 (demo_three ! 2)
     = ([ImageUrl (JInt 3) ''https://storage/images/c0ffee_section_3.png'' (JStr ''a stem'')],
        Inr (Some ''https://storage/images/c0ffee_section_3.png''))"
  using demo_upload[of 2 "''3''"]
  by (simp add: generate_section_image_def demo_three_def generate_image_def demo_imagen_def demo_lib_def)

text \<open>
  C5. For a section of the script whose image generation succeeds (the capability, called
  with \<^verbatim>\<open>STYLE_PREFIX\<close> followed by the section's prompt, returns an image with
  non-empty bytes) and whose upload of these bytes returns a URL, the section's task queues
  one \<^verbatim>\<open>image_url\<close> event with the section id, that URL and the first 80 characters
  of the prompt as caption, and the event is among those the media stage queues.
\<close>

theorem section_image_event:
  assumes i: "i < length items" and s: "items ! i = section"
    and secs: "py_get script ''sections'' (JList []) = Inr (JList items)"
    and sid: "py_get section ''id'' (JInt 0) = Inr section_id"
    and pr: "py_get section ''image_prompt'' (JStr ''educational diagram'') = Inr (JStr prompt)"
    and img: "generate_images ienv i (STYLE_PREFIX @ prompt) = Inr (Some image_bytes # others)"
    and ne: "image_bytes \<noteq> []"
    and up: "upload_image_bytes senv i image_bytes
               (Some (''section_'' @ format_value lib section_id @ ''.png'')) ''image/png'' = Inr url"
  shows "generate_image ienv i (JStr prompt) = Inr (Some image_bytes)
       \<and> generate_section_image lib ienv senv i section
           = ([ImageUrl section_id url (JStr (take 80 prompt))], Inr (Some url))
       \<and> ImageUrl section_id url (JStr (take 80 prompt))
           \<in> set (fst (generate_all_images lib ienv senv sched script))"
proof -
  have g: "generate_image ienv i (JStr prompt) = Inr (Some image_bytes)"
    by (simp add: generate_image_def img)
  have t: "generate_section_image lib ienv senv i section
      = ([ImageUrl section_id url (JStr (take 80 prompt))], Inr (Some url))"
    using up by (simp add: generate_section_image_def sid pr g ne)
  have "fst (section_tasks lib ienv senv items ! i) = [ImageUrl section_id url (JStr (take 80 prompt))]"
    using i s t by (simp add: section_tasks_nth)
  then have "[ImageUrl section_id url (JStr (take 80 prompt))]
      \<in> set (map fst (section_tasks lib ienv senv items))"
    using i by (metis length_map nth_map nth_mem section_tasks_length)
  then have "ImageUrl section_id url (JStr (take 80 prompt))
      \<in> set (concat (map fst (section_tasks lib ienv senv items)))"
    by (simp only: set_concat) fastforce
  then show ?thesis
    using g t by (simp add: all_images_list[OF secs] set_interleave)
qed

theorem section_image_event_witness:
  "0 < length demo_three
   \<and> generate_images demo_imagen 0 (STYLE_PREFIX @ ''a leaf'') = Inr [Some [0x89, 0x50]]
   \<and> upload_image_bytes demo_storage 0 [0x89, 0x50]
        (Some (''section_'' @ format_value demo_lib (JInt 1) @ ''.png'')) ''image/png''
       = Inr ''https://storage/images/c0ffee_section_1.png''
   \<and> generate_image demo_imagen 0 (JStr ''a leaf'') = Inr (Some [0x89, 0x50])
   \<and> generate_section_image demo_lib demo_imagen demo_storage 0 (demo_three ! 0)
       = ([ImageUrl (JInt 1) ''https://storage/images/c0ffee_section_1.png'' (JStr ''a leaf'')],
          Inr (Some ''https://storage/images/c0ffee_section_1.png''))
   \<and> ImageUrl (JInt 1) ''https://storage/images/c0ffee_section_1.png'' (JStr ''a leaf'')
       \<in> set (fst (generate_all_images demo_lib demo_imagen demo_storage [2, 0] demo_script3))"
proof -
  have h1: "0 < length demo_three"
    by (simp add: demo_three_def)
  have h3: "py_get demo_script3 ''sections'' (JList []) = Inr (JList demo_three)"
    by (simp add: demo_script3_def)
  have h4: "py_get (demo_three ! 0) ''id'' (JInt 0) = Inr (JInt 1)"
    and h5: "py_get (demo_three ! 0) ''image_prompt'' (JStr ''educational diagram'') = Inr (JStr ''a leaf'')"
    by (simp_all add: demo_three_def)
  have h6: "generate_images demo_imagen 0 (STYLE_PREFIX @ ''a leaf'') = Inr (Some [0x89, 0x50] # [])"
    by (simp add: demo_imagen_def)
  have h7: "[0x89, 0x50] \<noteq> ([] :: bytes)"
    by simp
  have h8: "upload_image_bytes demo_storage 0 [0x89, 0x50]
        (Some (''section_'' @ format_value demo_lib (JInt 1) @ ''.png'')) ''image/png''
       = Inr ''https://storage/images/c0ffee_section_1.png''"
    using demo_upload[of 0 "''1''"] by (simp add: demo_lib_def)
  have "take 80 ''a leaf'' = ''a leaf''"
    by simp
  with section_image_event[OF h1 refl h3 h4 h5 h6 h7 h8, of "[2, 0]"] h1 h6 h8
  show ?thesis
    by simp
qed

text \<open>
  C6. For a script whose sections are a list, \<^verbatim>\<open>generate_all_images\<close> returns
  normally under every schedule and every behaviour of the collaborators; the events it
  queues are, up to order, those of each section's own task, which depend on that section
  and its own calls only; a section without an image queues nothing, and no section queues
  more than one event.
\<close>

theorem image_failures_are_independent:
  assumes secs: "py_get script ''sections'' (JList []) = Inr (JList items)"
  shows "snd (generate_all_images lib ienv senv sched script) = Inr ()
       \<and> mset (fst (generate_all_images lib ienv senv sched script))
           = mset (concat (map2 (\<lambda>i s. fst (generate_section_image lib ienv senv i s))
                            [0..<length items] items))
       \<and> (\<forall>i<length items. image_missing ienv i (items ! i)
             \<longrightarrow> fst (generate_section_image lib ienv senv i (items ! i)) = [])
       \<and> (\<forall>i<length items. length (fst (generate_section_image lib ienv senv i (items ! i))) \<le> 1)"
proof -
  have "map fst (section_tasks lib ienv senv items)
      = map2 (\<lambda>i s. fst (generate_section_image lib ienv senv i s)) [0..<length items] items"
    by (simp add: section_tasks_def case_prod_unfold)
  moreover have "\<forall>i<length items. length (fst (generate_section_image lib ienv senv i (items ! i))) \<le> 1"
    using task_at_most_one by blast
  ultimately show ?thesis
    by (simp add: all_images_list[OF secs] mset_interleave task_missing)
qed

theorem image_failures_are_independent_witness:
  "py_get demo_script3 ''sections'' (JList []) = Inr (JList demo_three)
   \<and> image_missing demo_imagen 1 (demo_three ! 1)
   \<and> snd (generate_all_images demo_lib demo_imagen demo_storage [2, 0] demo_script3) = Inr ()
   \<and> fst (generate_section_image demo_lib demo_imagen demo_storage 1 (demo_three ! 1)) = []
   \<and> mset (fst (generate_all_images demo_lib demo_imagen demo_storage [2, 0] demo_script3))
       = {# ImageUrl (JInt 1) ''https://storage/images/c0ffee_section_1.png'' (JStr ''a leaf''),
            ImageUrl (JInt 3) ''https://storage/images/c0ffee_section_3.png'' (JStr ''a stem'') #}"
proof -
  have h: "py_get demo_script3 ''sections'' (JList []) = Inr (JList demo_three)"
    by (simp add: demo_script3_def)
  have m: "image_missing demo_imagen 1 (demo_three ! 1)"
    by (simp add: image_missing_def demo_three_def field_def generate_image_def demo_imagen_def)
  have len: "length demo_three = 3"
    by (simp add: demo_three_def)
  have ix: "[0..<length demo_three] = [0, 1, 2]"
    unfolding len by code_simp
  have three: "demo_three = [demo_three ! 0, demo_three ! 1, demo_three ! 2]"
    by (simp add: demo_three_def)
  have c: "concat (map2 (\<lambda>i s. fst (generate_section_image demo_lib demo_imagen demo_storage i s))
                    [0..<length demo_three] demo_three)
      = [ImageUrl (JInt 1) ''https://storage/images/c0ffee_section_1.png'' (JStr ''a leaf''),
         ImageUrl (JInt 3) ''https://storage/images/c0ffee_section_3.png'' (JStr ''a stem'')]"
    unfolding ix by (subst three) (simp add: demo_task_0 demo_task_1[unfolded One_nat_def] demo_task_2)
  from image_failures_are_independent[OF h, of demo_lib demo_imagen demo_storage "[2, 0]"]
  have r: "snd (generate_all_images demo_lib demo_imagen demo_storage [2, 0] demo_script3) = Inr ()"
    and ms: "mset (fst (generate_all_images demo_lib demo_imagen demo_storage [2, 0] demo_script3))
           = mset (concat (map2 (\<lambda>i s. fst (generate_section_image demo_lib demo_imagen demo_storage i s))
                            [0..<length demo_three] demo_three))"
    and miss: "\<forall>i<length demo_three. image_missing demo_imagen i (demo_three ! i)
             \<longrightarrow> fst (generate_section_image demo_lib demo_imagen demo_storage i (demo_three ! i)) = []"
    by blast+
  have "1 < length demo_three"
    by (simp add: len)
  from miss[rule_format, OF this m]
  have e: "fst (generate_section_image demo_lib demo_imagen demo_storage 1 (demo_three ! 1)) = []" .
  show ?thesis
    using h m r e ms unfolding c by simp
qed

section \<open>Sections without an id, scripts without sections\<close>

lemma content_section:
  "list_all (is_content_of sid) evs \<Longrightarrow> list_all (\<lambda>e. event_section e = Some sid) evs"
  by (induction evs) (auto simp: is_content_of_def split: event.splits)

lemma task_events_section:
  "py_get section ''id'' (JInt 0) = Inr sid \<Longrightarrow>
     list_all (\<lambda>e. event_section e = Some sid) (fst (generate_section_image lib ienv senv i section))"
  by (simp add: generate_section_image_def split: sum.splits option.splits)

lemma task_queues_image:
  assumes "py_get section ''id'' (JInt 0) = Inr section_id"
    and "py_get section ''image_prompt'' (JStr ''educational diagram'') = Inr (JStr prompt)"
    and "generate_images ienv i (STYLE_PREFIX @ prompt) = Inr (Some image_bytes # others)"
    and "image_bytes \<noteq> []"
    and "upload_image_bytes senv i image_bytes
           (Some (''section_'' @ format_value lib section_id @ ''.png'')) ''image/png'' = Inr url"
  shows "generate_section_image lib ienv senv i section
       = ([ImageUrl section_id url (JStr (take 80 prompt))], Inr (Some url))"
  using assms(5) by (simp add: generate_section_image_def generate_image_def assms(1-4))

lemma task_event_in_stage:
  assumes "py_get script ''sections'' (JList []) = Inr (JList items)"
    and "i < length items"
    and "fst (generate_section_image lib ienv senv i (items ! i)) = [e]"
  shows "e \<in> set (fst (generate_all_images lib ienv senv sched script))"
proof -
  have "fst (section_tasks lib ienv senv items ! i) = [e]"
    using assms(2,3) by (simp add: section_tasks_nth)
  then have "[e] \<in> set (map fst (section_tasks lib ienv senv items))"
    using assms(2) by (metis length_map nth_map nth_mem section_tasks_length)
  then have "e \<in> set (concat (map fst (section_tasks lib ienv senv items)))"
    by (simp only: set_concat) fastforce
  then show ?thesis
    by (simp add: all_images_list[OF assms(1)] set_interleave)
qed

lemma demo_turn_result:
  "narrate_text demo_lib demo_live n t sid = ([Audio sid ''QUJD'', Text sid ''hi''], None)"
  by (simp add: narrate_text_def demo_live_def demo_turn_def demo_lib_def audio_events_def
      text_events_def is_turn_complete_def)

lemma demo_no_id_upload:
  "upload_image_bytes demo_storage 0 [0x89, 0x50]
     (Some (''section_'' @ format_value demo_lib (JInt 0) @ ''.png'')) ''image/png''
     = Inr ''https://storage/images/c0ffee_section_0.png''"
  by (simp add: upload_image_bytes_def demo_storage_def blob_name_def demo_lib_def)

text \<open>
  C9. A section dictionary without an \<^verbatim>\<open>"id"\<close> key is narrated and illustrated
  under id 0. The narration loop queues for it \<^verbatim>\<open>section_start\<close> with 0, the
  turn's audio and text with 0, built by the same call with the same id as the intro's, and
  \<^verbatim>\<open>section_end\<close> with 0 when the turn did not raise. When its image is generated
  and uploaded (under the name \<^verbatim>\<open>section_0.png\<close>), its task queues exactly one
  \<^verbatim>\<open>image_url\<close> event, with section id 0, and that event is among the media
  stage's events for every script that holds the section. Every event of the section, in
  either stage, carries 0, as every event of the intro does.
\<close>

theorem missing_id_is_intro_id:
  assumes sec: "section = JObj kvs" and noid: "map_of kvs ''id'' = None"
    and narr: "narration = field section ''narration'' (JStr [])"
  shows "fst (narrate_sections lib env n [section])
           = SectionStart (JInt 0) # fst (narrate_text lib env n narration (JInt 0))
               @ (if snd (narrate_text lib env n narration (JInt 0)) = None then [SectionEnd (JInt 0)] else [])
       \<and> fst (narrate_intro lib env intro)
           = (if py_truthy intro then fst (narrate_text lib env 0 intro (JInt 0)) else [])
       \<and> list_all (\<lambda>e. event_section e = Some (JInt 0)) (fst (narrate_sections lib env n [section]))
       \<and> list_all (\<lambda>e. event_section e = Some (JInt 0)) (fst (narrate_intro lib env intro))
       \<and> list_all (\<lambda>e. event_section e = Some (JInt 0)) (fst (generate_section_image lib ienv senv i section))
       \<and> (\<forall>prompt image_bytes others url.
             py_get section ''image_prompt'' (JStr ''educational diagram'') = Inr (JStr prompt)
             \<and> generate_images ienv i (STYLE_PREFIX @ prompt) = Inr (Some image_bytes # others)
             \<and> image_bytes \<noteq> []
             \<and> upload_image_bytes senv i image_bytes
                  (Some (''section_'' @ format_value lib (JInt 0) @ ''.png'')) ''image/png'' = Inr url
             \<longrightarrow>
             generate_section_image lib ienv senv i section
               = ([ImageUrl (JInt 0) url (JStr (take 80 prompt))], Inr (Some url))
             \<and> (\<forall>script items sched.
                   py_get script ''sections'' (JList []) = Inr (JList items)
                   \<and> i < length items \<and> items ! i = section \<longrightarrow>
                   ImageUrl (JInt 0) url (JStr (take 80 prompt))
                     \<in> set (fst (generate_all_images lib ienv senv sched script))))"
proof -
  have gid: "py_get section ''id'' (JInt 0) = Inr (JInt 0)"
    by (simp add: sec noid)
  have gn: "py_get section ''narration'' (JStr []) = Inr narration"
    by (simp add: sec narr field_def)
  have c: "list_all (\<lambda>e. event_section e = Some (JInt 0)) (fst (narrate_text lib env k t (JInt 0)))" for k t
    by (rule content_section[OF narrate_text_tagged])
  have a: "fst (narrate_sections lib env n [section])
           = SectionStart (JInt 0) # fst (narrate_text lib env n narration (JInt 0))
               @ (if snd (narrate_text lib env n narration (JInt 0)) = None then [SectionEnd (JInt 0)] else [])"
    by (cases "narrate_text lib env n narration (JInt 0)")
       (auto simp: gid gn split: option.splits)
  have b: "fst (narrate_intro lib env intro)
           = (if py_truthy intro then fst (narrate_text lib env 0 intro (JInt 0)) else [])"
    by (simp add: narrate_intro_def)
  have img: "generate_section_image lib ienv senv i section
               = ([ImageUrl (JInt 0) url (JStr (take 80 prompt))], Inr (Some url))
             \<and> (\<forall>script items sched.
                   py_get script ''sections'' (JList []) = Inr (JList items)
                   \<and> i < length items \<and> items ! i = section \<longrightarrow>
                   ImageUrl (JInt 0) url (JStr (take 80 prompt))
                     \<in> set (fst (generate_all_images lib ienv senv sched script)))"
    if "py_get section ''image_prompt'' (JStr ''educational diagram'') = Inr (JStr prompt)"
      and "generate_images ienv i (STYLE_PREFIX @ prompt) = Inr (Some image_bytes # others)"
      and "image_bytes \<noteq> []"
      and "upload_image_bytes senv i image_bytes
             (Some (''section_'' @ format_value lib (JInt 0) @ ''.png'')) ''image/png'' = Inr url"
    for prompt image_bytes others url
  proof -
    have t: "generate_section_image lib ienv senv i section
               = ([ImageUrl (JInt 0) url (JStr (take 80 prompt))], Inr (Some url))"
      by (rule task_queues_image[OF gid that])
    then show ?thesis
      using task_event_in_stage[of _ _ i lib ienv senv] by auto
  qed
  have narration_part:
    "fst (narrate_sections lib env n [section])
           = SectionStart (JInt 0) # fst (narrate_text lib env n narration (JInt 0))
               @ (if snd (narrate_text lib env n narration (JInt 0)) = None then [SectionEnd (JInt 0)] else [])
       \<and> fst (narrate_intro lib env intro)
           = (if py_truthy intro then fst (narrate_text lib env 0 intro (JInt 0)) else [])
       \<and> list_all (\<lambda>e. event_section e = Some (JInt 0)) (fst (narrate_sections lib env n [section]))
       \<and> list_all (\<lambda>e. event_section e = Some (JInt 0)) (fst (narrate_intro lib env intro))
       \<and> list_all (\<lambda>e. event_section e = Some (JInt 0)) (fst (generate_section_image lib ienv senv i section))"
    unfolding a b using c task_events_section[OF gid] by simp
  show ?thesis
    using narration_part img by blast
qed

theorem missing_id_is_intro_id_witness:
  "fst (narrate_sections demo_lib demo_live 1 [demo_no_id])
     = [SectionStart (JInt 0), Audio (JInt 0) ''QUJD'', Text (JInt 0) ''hi'', SectionEnd (JInt 0)]
   \<and> fst (narrate_intro demo_lib demo_live (JStr ''Welcome''))
     = [Audio (JInt 0) ''QUJD'', Text (JInt 0) ''hi'']
   \<and> py_get demo_no_id ''image_prompt'' (JStr ''educational diagram'') = Inr (JStr ''a seed'')
   \<and> generate_images demo_imagen 0 (STYLE_PREFIX @ ''a seed'') = Inr [Some [0x89, 0x50]]
   \<and> upload_image_bytes demo_storage 0 [0x89, 0x50]
        (Some (''section_'' @ format_value demo_lib (JInt 0) @ ''.png'')) ''image/png''
       = Inr ''https://storage/images/c0ffee_section_0.png''
   \<and> generate_section_image demo_lib demo_imagen demo_storage 0 demo_no_id
       = ([ImageUrl (JInt 0) ''https://storage/images/c0ffee_section_0.png'' (JStr ''a seed'')],
          Inr (Some ''https://storage/images/c0ffee_section_0.png''))
   \<and> ImageUrl (JInt 0) ''https://storage/images/c0ffee_section_0.png'' (JStr ''a seed'')
       \<in> set (fst (generate_all_images demo_lib demo_imagen demo_storage [0]
                    (JObj [(''sections'', JList [demo_no_id])])))"
proof -
  have h: "map_of [(''narration'', JStr ''untitled''), (''image_prompt'', JStr ''a seed'')] ''id'' = None"
    by simp
  have p: "py_get demo_no_id ''image_prompt'' (JStr ''educational diagram'') = Inr (JStr ''a seed'')"
    by (simp add: demo_no_id_def)
  have g: "generate_images demo_imagen 0 (STYLE_PREFIX @ ''a seed'') = Inr (Some [0x89, 0x50] # [])"
    by (simp add: demo_imagen_def)
  have ne: "[0x89, 0x50] \<noteq> ([] :: bytes)"
    by simp
  have s: "py_get (JObj [(''sections'', JList [demo_no_id])]) ''sections'' (JList []) = Inr (JList [demo_no_id])"
    and l: "0 < length [demo_no_id]" and it: "[demo_no_id] ! 0 = demo_no_id"
    by simp_all
  note t = missing_id_is_intro_id[OF demo_no_id_def h refl,
      of demo_lib demo_live 1 "JStr ''Welcome''" demo_imagen demo_storage 0]
  from t have n: "fst (narrate_sections demo_lib demo_live 1 [demo_no_id])
     = [SectionStart (JInt 0), Audio (JInt 0) ''QUJD'', Text (JInt 0) ''hi'', SectionEnd (JInt 0)]
   \<and> fst (narrate_intro demo_lib demo_live (JStr ''Welcome''))
     = [Audio (JInt 0) ''QUJD'', Text (JInt 0) ''hi'']"
    by (simp add: demo_turn_result)
  from t p g ne demo_no_id_upload
  have m: "generate_section_image demo_lib demo_imagen demo_storage 0 demo_no_id
       = ([ImageUrl (JInt 0) ''https://storage/images/c0ffee_section_0.png'' (JStr (take 80 ''a seed''))],
          Inr (Some ''https://storage/images/c0ffee_section_0.png''))
     \<and> (\<forall>script items sched.
           py_get script ''sections'' (JList []) = Inr (JList items)
           \<and> 0 < length items \<and> items ! 0 = demo_no_id \<longrightarrow>
           ImageUrl (JInt 0) ''https://storage/images/c0ffee_section_0.png'' (JStr (take 80 ''a seed''))
             \<in> set (fst (generate_all_images demo_lib demo_imagen demo_storage sched script)))"
    by blast
  from m s l it
  have st: "ImageUrl (JInt 0) ''https://storage/images/c0ffee_section_0.png'' (JStr (take 80 ''a seed''))
       \<in> set (fst (generate_all_images demo_lib demo_imagen demo_storage [0]
                    (JObj [(''sections'', JList [demo_no_id])])))"
    by blast
  show ?thesis
    using n p g demo_no_id_upload m st by simp
qed

lemma and_then_markers:
  "filter is_marker (fst a) = [] \<Longrightarrow> filter is_marker (fst b) = [] \<Longrightarrow>
     filter is_marker (fst (and_then a b)) = []"
  by (simp add: and_then_def split: option.splits)

lemma narrate_text_markers: "filter is_marker (fst (narrate_text lib env n t sid)) = []"
  by (rule markers_content[OF narrate_text_tagged])

lemma empty_body_markers:
  "filter is_marker (fst (session_body lib env (JList []) intro outro)) = []"
  unfolding session_body_def
  by (intro and_then_markers)
     (simp_all add: narrate_intro_def narrate_outro_def narrate_loop_def narrate_text_markers)

lemma empty_session_markers:
  "filter is_marker (fst (with_session lib env (JList []) intro outro)) = []"
  by (simp add: with_session_def empty_body_markers split: option.splits)

text \<open>
  C10. For a script whose sections are missing or the empty list, the media stage returns
  at once with no event; the narration stage returns normally with no
  \<^verbatim>\<open>section_start\<close> or \<^verbatim>\<open>section_end\<close> event, still connects (a failing
  connect is reported as the one narration error), and with a session that does not raise
  it queues the non-empty intro's events under id 0 followed by the non-empty outro's
  under id -1 and nothing else.
\<close>

theorem empty_script_stages:
  assumes secs: "py_get script ''sections'' (JList []) = Inr (JList [])"
    and intro: "intro = field script ''intro'' (JStr [])"
    and outro: "outro = field script ''outro'' (JStr [])"
    and k: "k = (if py_truthy intro then 1 else 0)"
  shows "generate_all_images lib ienv senv sched script = ([], Inr ())
       \<and> (\<exists>evs. narrate_script lib env script = Inr evs \<and> filter is_marker evs = [])
       \<and> (\<forall>exc. connect_fault env = Some exc \<longrightarrow>
             narrate_script lib env script = Inr [Error (''Narration error: '' @ exn_msg exc)])
       \<and> (connect_fault env = None \<and> close_fault env = None \<and> (\<forall>n t. snd (turn env n t) = None) \<longrightarrow>
             narrate_script lib env script
               = Inr ((if py_truthy intro then fst (narrate_text lib env 0 intro (JInt 0)) else [])
                      @ (if py_truthy outro then fst (narrate_text lib env k outro (JInt (- 1))) else [])))"
proof -
  from secs obtain kvs where script: "script = JObj kvs"
    by (cases script) auto
  have gi: "py_get script ''intro'' (JStr []) = Inr intro"
    and go: "py_get script ''outro'' (JStr []) = Inr outro"
    by (simp_all add: script intro outro field_def)
  have media: "generate_all_images lib ienv senv sched script = ([], Inr ())"
    by (simp add: generate_all_images_def secs)
  have run: "narrate_script lib env script
      = Inr (case snd (with_session lib env (JList []) intro outro) of
               None \<Rightarrow> fst (with_session lib env (JList []) intro outro)
             | Some exc \<Rightarrow> fst (with_session lib env (JList []) intro outro)
                             @ [Error (''Narration error: '' @ exn_msg exc)])"
    by (simp add: narrate_script_def secs gi go)
  have mk: "\<exists>evs. narrate_script lib env script = Inr evs \<and> filter is_marker evs = []"
    unfolding run by (simp add: empty_session_markers split: option.splits)
  have fault: "narrate_script lib env script = Inr [Error (''Narration error: '' @ exn_msg exc)]"
    if "connect_fault env = Some exc" for exc
    unfolding run using that by (simp add: with_session_def)
  have ok: "narrate_script lib env script
      = Inr ((if py_truthy intro then fst (narrate_text lib env 0 intro (JInt 0)) else [])
             @ (if py_truthy outro then fst (narrate_text lib env k outro (JInt (- 1))) else []))"
    if "connect_fault env = None" "close_fault env = None" "\<forall>n t. snd (turn env n t) = None"
    unfolding run using that
    by (simp add: with_session_def session_body_def and_then_def narrate_intro_def
        narrate_outro_def narrate_loop_def turns_before_outro_def narrate_text_no_fault k)
  show ?thesis
    using media mk fault ok by blast
qed

theorem empty_script_stages_witness:
  "py_get demo_empty_script ''sections'' (JList []) = Inr (JList [])
   \<and> generate_all_images demo_lib demo_imagen demo_storage [0] demo_empty_script = ([], Inr ())
   \<and> narrate_script demo_lib demo_live demo_empty_script
       = Inr [Audio (JInt 0) ''QUJD'', Text (JInt 0) ''hi'',
              Audio (JInt (- 1)) ''QUJD'', Text (JInt (- 1)) ''hi'']"
proof -
  have h1: "py_get demo_empty_script ''sections'' (JList []) = Inr (JList [])"
    by (simp add: demo_empty_script_def)
  have h2: "JStr ''Welcome'' = field demo_empty_script ''intro'' (JStr [])"
    and h3: "JStr ''Bye'' = field demo_empty_script ''outro'' (JStr [])"
    by (simp_all add: demo_empty_script_def field_def)
  have h4: "(1::nat) = (if py_truthy (JStr ''Welcome'') then 1 else 0)"
    by simp
  have env: "connect_fault demo_live = None" "close_fault demo_live = None"
    "\<forall>n t. snd (turn demo_live n t) = None"
    by (simp_all add: demo_live_def)
  from empty_script_stages[OF h1 h2 h3 h4, of demo_lib demo_imagen demo_storage "[0]" demo_live]
  show ?thesis
    using h1 env by (simp add: demo_turn_result)
qed

section \<open>Properties of the analysis and scripting stages\<close>

lemma split_fence_nonempty: "split_fence cur s \<noteq> []"
  by (induction cur s rule: split_fence.induct) auto

lemma split_fence_two:
  assumes "startswith s FENCE"
  shows "\<exists>second rest. split_fence [] s = [] # second # rest"
proof -
  from assms obtain t where s: "s = CHR 0x60 # CHR 0x60 # CHR 0x60 # t"
    unfolding startswith_def FENCE_def
    by (cases s; simp) (metis (no_types, opaque_lifting) append_Cons append_Nil append_take_drop_id)
  have "split_fence [] s = [] # split_fence [] t"
    by (simp add: s)
  moreover obtain second rest where "split_fence [] t = second # rest"
    using split_fence_nonempty[of "[]" t] by (cases "split_fence [] t") auto
  ultimately show ?thesis by simp
qed

lemma strip_fences_total: "strip_fences response_text = Inr (cleaned response_text)"
proof (cases "startswith (py_strip response_text) FENCE")
  case True
  from split_fence_two[OF True] obtain second rest
    where "split_fence [] (py_strip response_text) = [] # second # rest" by blast
  then show ?thesis
    using True by (simp add: cleaned_def strip_fences_def)
next
  case False
  then show ?thesis
    by (simp add: cleaned_def strip_fences_def)
qed

lemma is_space_newline: "is_space (CHR 0x0A)"
  by (simp add: is_space_def)

lemma not_space_letters:
  "\<not> is_space CHR ''S''" "\<not> is_space CHR ''.''" "\<not> is_space CHR ''{''" "\<not> is_space CHR ''}''"
  "\<not> is_space CHR ''n''" "\<not> is_space CHR ''!''"
  by (simp_all add: is_space_def)

lemma demo_answer_cleaned: "cleaned demo_answer = ''Sorry, I cannot read this image.''"
  by (simp add: cleaned_def strip_fences_def demo_answer_def py_strip_def startswith_def FENCE_def
      is_space_newline not_space_letters)

lemma demo_answer_not_json: "json_loads demo_lib (cleaned demo_answer) = JSONDecodeError"
  by (simp add: demo_answer_cleaned demo_lib_def demo_json_no_ids_def)

lemma demo_decode: "b64decode demo_lib (JStr ''QUJD'') = Inr [0x41, 0x42, 0x43]"
  by (simp add: demo_lib_def)

lemma cleaned_deep: "cleaned demo_deep = demo_deep"
proof -
  have ns: "\<not> is_space (CHR ''['')"
    by (simp add: is_space_def)
  have st: "py_strip demo_deep = demo_deep"
    by (simp add: py_strip_def demo_deep_def dropWhile_replicate ns)
  have nf: "\<not> startswith demo_deep FENCE"
    by (simp add: startswith_def FENCE_def demo_deep_def)
  show ?thesis
    by (simp add: cleaned_def strip_fences_def st nf)
qed

lemma demo_deep_loads: "json_loads demo_deep_lib (cleaned demo_deep) = LoadsRaised RecursionError"
  by (simp add: cleaned_deep demo_deep_lib_def)

lemma analyze_photo_loads_raised:
  assumes "b64decode lib photo_b64 = Inr image_bytes"
    and "vision_generate_content venv image_bytes (VISION_PROMPT question) = Inr (Some response_text)"
    and "json_loads lib (cleaned response_text) = LoadsRaised exc"
  shows "analyze_photo lib venv photo_b64 question = Inl exc"
  using assms by (simp add: analyze_photo_def strip_fences_total)

lemma generate_script_loads_raised:
  assumes "py_get vision_result ''subject'' (JStr ''General'') = Inr subject"
    and "script_generate_content tenv (script_prompt lib vision_result) = Inr (Some response_text)"
    and "json_loads lib (cleaned response_text) = LoadsRaised exc"
  shows "generate_script lib tenv vision_result = Inl exc"
  using assms by (simp add: generate_script_def strip_fences_total)

lemma demo_deep_decode: "b64decode demo_deep_lib (JStr ''QUJD'') = Inr [0x41, 0x42, 0x43]"
  by (simp add: demo_deep_lib_def demo_lib_def)

lemma demo_deep_analysis:
  "analyze_photo demo_deep_lib demo_deep_vision
     (JStr ''QUJD'') ''What is this?'' = Inl RecursionError"
  by (rule analyze_photo_loads_raised[OF demo_deep_decode _ demo_deep_loads])
     (simp add: demo_deep_vision_def)

lemma demo_deep_script:
  "generate_script demo_deep_lib (demo_text_env demo_deep) demo_record = Inl RecursionError"
  by (rule generate_script_loads_raised[OF _ _ demo_deep_loads])
     (simp_all add: demo_record_def demo_text_env_def)

text \<open>
  C7, as the code has it. When the raw input decodes, the analysis capability answers with
  a text, and \<^verbatim>\<open>json.loads\<close> raises \<^verbatim>\<open>JSONDecodeError\<close> on that text
  trimmed and without its code fence, \<^verbatim>\<open>analyze_photo\<close> returns the record with
  subject "General", topic "Unknown", the question as given, and as context the trimmed,
  fence-free text that the parser was handed.
\<close>

theorem analysis_degrades_on_unparsed_output:
  assumes "b64decode lib photo_b64 = Inr image_bytes"
    and "vision_generate_content venv image_bytes (VISION_PROMPT question) = Inr (Some response_text)"
    and "json_loads lib (cleaned response_text) = JSONDecodeError"
  shows "strip_fences response_text = Inr (cleaned response_text)
       \<and> analyze_photo lib venv photo_b64 question
           = Inr (JObj [(''subject'', JStr ''General''),
                        (''topic'', JStr ''Unknown''),
                        (''context'', JStr (cleaned response_text)),
                        (''question'', JStr question)])"
  using assms
  by (simp add: analyze_photo_def logged_result_def strip_fences_total degraded_record_def)

theorem analysis_degrades_on_unparsed_output_witness:
  "b64decode demo_lib (JStr ''QUJD'') = Inr [0x41, 0x42, 0x43]
   \<and> vision_generate_content demo_vision [0x41, 0x42, 0x43] (VISION_PROMPT ''What is this?'') = Inr (Some demo_answer)
   \<and> json_loads demo_lib (cleaned demo_answer) = JSONDecodeError
   \<and> analyze_photo demo_lib demo_vision (JStr ''QUJD'') ''What is this?''
       = Inr (JObj [(''subject'', JStr ''General''),
                    (''topic'', JStr ''Unknown''),
                    (''context'', JStr ''Sorry, I cannot read this image.''),
                    (''question'', JStr ''What is this?'')])"
proof -
  have h2: "vision_generate_content demo_vision [0x41, 0x42, 0x43] (VISION_PROMPT ''What is this?'')
      = Inr (Some demo_answer)"
    by (simp add: demo_vision_def)
  from analysis_degrades_on_unparsed_output[OF demo_decode h2 demo_answer_not_json]
  show ?thesis
    using demo_decode h2 demo_answer_not_json by (simp add: demo_answer_cleaned)
qed

text \<open>
  C7 as stated fails: for an answer that ends in a newline the context of the degraded
  record is the trimmed text, not the text received; and for an answer of a thousand
  opening brackets, on which \<^verbatim>\<open>json.loads\<close> raises \<^verbatim>\<open>RecursionError\<close>,
  the stage raises.
\<close>

theorem analysis_description_is_not_the_received_text:
  "vision_generate_content demo_vision [0x41, 0x42, 0x43] (VISION_PROMPT ''What is this?'') = Inr (Some demo_answer)
   \<and> json_loads demo_lib (cleaned demo_answer) = JSONDecodeError
   \<and> analyze_photo demo_lib demo_vision (JStr ''QUJD'') ''What is this?''
       = Inr (JObj [(''subject'', JStr ''General''),
                    (''topic'', JStr ''Unknown''),
                    (''context'', JStr ''Sorry, I cannot read this image.''),
                    (''question'', JStr ''What is this?'')])
   \<and> ''Sorry, I cannot read this image.'' \<noteq> demo_answer
   \<and> json_loads demo_deep_lib (cleaned demo_deep) = LoadsRaised RecursionError
   \<and> analyze_photo demo_deep_lib demo_deep_vision (JStr ''QUJD'') ''What is this?''
       = Inl RecursionError"
proof -
  have h2: "vision_generate_content demo_vision [0x41, 0x42, 0x43] (VISION_PROMPT ''What is this?'')
      = Inr (Some demo_answer)"
    by (simp add: demo_vision_def)
  have "analyze_photo demo_lib demo_vision (JStr ''QUJD'') ''What is this?''
       = Inr (JObj [(''subject'', JStr ''General''),
                    (''topic'', JStr ''Unknown''),
                    (''context'', JStr ''Sorry, I cannot read this image.''),
                    (''question'', JStr ''What is this?'')])"
    using demo_answer_not_json
    by (simp add: analyze_photo_def logged_result_def demo_decode h2 strip_fences_total demo_answer_cleaned
        degraded_record_def)
  then show ?thesis
    using h2 demo_answer_not_json demo_deep_loads demo_deep_analysis by (simp add: demo_answer_def)
qed

lemma cleaned_plain:
  "cleaned ''{}'' = ''{}''"
  by (simp add: cleaned_def strip_fences_def py_strip_def startswith_def FENCE_def not_space_letters)

lemma cleaned_no_ids: "cleaned demo_json_no_ids = demo_json_no_ids"
  by (simp add: cleaned_def strip_fences_def py_strip_def startswith_def FENCE_def not_space_letters
      demo_json_no_ids_def)

lemma cleaned_garbage: "cleaned ''Sure thing!'' = ''Sure thing!''"
  by (simp add: cleaned_def strip_fences_def py_strip_def startswith_def FENCE_def not_space_letters)

lemma demo_loads:
  "json_loads demo_lib ''{}'' = Loaded (JObj [])"
  "json_loads demo_lib demo_json_no_ids = Loaded demo_parsed_no_ids"
  "json_loads demo_lib ''Sure thing!'' = JSONDecodeError"
  by (simp_all add: demo_lib_def demo_json_no_ids_def)

text \<open>
  C3, as the code has it. When \<^verbatim>\<open>json.loads\<close> raises
  \<^verbatim>\<open>JSONDecodeError\<close> on the text capability's answer (trimmed, without its code
  fence), \<^verbatim>\<open>generate_script\<close> returns the fallback script, whose sections are one
  section with id 1. When the answer parses to a dictionary whose sections have a length, it returns
  the parsed value unchanged.
\<close>

theorem script_fallback_or_as_parsed:
  assumes "py_get vision_result ''subject'' (JStr ''General'') = Inr subject"
    and "script_generate_content tenv (script_prompt lib vision_result) = Inr (Some response_text)"
  shows "(json_loads lib (cleaned response_text) = JSONDecodeError \<longrightarrow>
            generate_script lib tenv vision_result
              = Inr (fallback_script lib
                       (field vision_result ''topic'' (JStr ''Explainer''))
                       (field vision_result ''context'' (JStr ''Let me walk you through this.''))
                       (field vision_result ''topic'' (JStr ''the topic'')))
            \<and> (\<exists>narration image_prompt.
                  py_get (fallback_script lib
                            (field vision_result ''topic'' (JStr ''Explainer''))
                            (field vision_result ''context'' (JStr ''Let me walk you through this.''))
                            (field vision_result ''topic'' (JStr ''the topic'')))
                    ''sections'' (JList [])
                  = Inr (JList [JObj [(''id'', JInt 1), (''narration'', narration),
                                      (''image_prompt'', image_prompt)]])))
       \<and> (\<forall>script sections n.
             json_loads lib (cleaned response_text) = Loaded script
             \<and> py_get script ''sections'' (JList []) = Inr sections
             \<and> py_len sections = Inr n \<longrightarrow>
             generate_script lib tenv vision_result = Inr script)"
proof -
  have as_parsed: "generate_script lib tenv vision_result = Inr script"
    if "json_loads lib (cleaned response_text) = Loaded script"
      and "py_get script ''sections'' (JList []) = Inr sections"
      and "py_len sections = Inr n" for script sections n
  proof -
    from that(2) obtain kvs where "script = JObj kvs"
      by (cases script) auto
    then show ?thesis
      using assms that by (simp add: generate_script_def logged_script_def strip_fences_total)
  qed
  have fb: "json_loads lib (cleaned response_text) = JSONDecodeError \<Longrightarrow>
      generate_script lib tenv vision_result
        = Inr (fallback_script lib
                 (field vision_result ''topic'' (JStr ''Explainer''))
                 (field vision_result ''context'' (JStr ''Let me walk you through this.''))
                 (field vision_result ''topic'' (JStr ''the topic'')))"
    using assms by (simp add: generate_script_def logged_script_def strip_fences_total fallback_script_def)
  show ?thesis
    using as_parsed fb by (auto simp: fallback_script_def)
qed

theorem script_fallback_or_as_parsed_witness:
  "py_get demo_record ''subject'' (JStr ''General'') = Inr (JStr ''Biology'')
   \<and> json_loads demo_lib (cleaned ''Sure thing!'') = JSONDecodeError
   \<and> generate_script demo_lib (demo_text_env ''Sure thing!'') demo_record
       = Inr (JObj [(''title'', JStr ''photosynthesis''),
                    (''intro'', JStr ''Let me explain this for you.''),
                    (''sections'',
                       JList [JObj [(''id'', JInt 1),
                                    (''narration'', JStr ''A leaf diagram.''),
                                    (''image_prompt'',
                                       JStr ''Educational diagram about photosynthesis, clean white background, colorful, labeled'')]]),
                    (''outro'', JStr ''I hope that helps!'')])
   \<and> json_loads demo_lib (cleaned demo_json_no_ids) = Loaded demo_parsed_no_ids
   \<and> generate_script demo_lib (demo_text_env demo_json_no_ids) demo_record = Inr demo_parsed_no_ids"
proof -
  have h1: "py_get demo_record ''subject'' (JStr ''General'') = Inr (JStr ''Biology'')"
    by (simp add: demo_record_def)
  have h2: "script_generate_content (demo_text_env answer) (script_prompt demo_lib demo_record)
      = Inr (Some answer)" for answer
    by (simp add: demo_text_env_def)
  have n: "json_loads demo_lib (cleaned ''Sure thing!'') = JSONDecodeError"
    by (simp add: cleaned_garbage demo_loads)
  have p: "json_loads demo_lib (cleaned demo_json_no_ids) = Loaded demo_parsed_no_ids"
    by (simp add: cleaned_no_ids demo_loads)
  have s: "py_get demo_parsed_no_ids ''sections'' (JList [])
      = Inr (JList [JObj [(''narration'', JStr ''Leaves make sugar.'')]])"
    and l: "py_len (JList [JObj [(''narration'', JStr ''Leaves make sugar.'')]]) = Inr 1"
    by (simp_all add: demo_parsed_no_ids_def)
  have f: "fallback_script demo_lib
             (field demo_record ''topic'' (JStr ''Explainer''))
             (field demo_record ''context'' (JStr ''Let me walk you through this.''))
             (field demo_record ''topic'' (JStr ''the topic''))
      = JObj [(''title'', JStr ''photosynthesis''),
              (''intro'', JStr ''Let me explain this for you.''),
              (''sections'',
                 JList [JObj [(''id'', JInt 1),
                              (''narration'', JStr ''A leaf diagram.''),
                              (''image_prompt'',
                                 JStr ''Educational diagram about photosynthesis, clean white background, colorful, labeled'')]]),
              (''outro'', JStr ''I hope that helps!'')]"
    by (simp add: fallback_script_def demo_record_def field_def demo_lib_def)
  from script_fallback_or_as_parsed[OF h1 h2, of "''Sure thing!''"] n
  have a: "generate_script demo_lib (demo_text_env ''Sure thing!'') demo_record
      = Inr (fallback_script demo_lib
             (field demo_record ''topic'' (JStr ''Explainer''))
             (field demo_record ''context'' (JStr ''Let me walk you through this.''))
             (field demo_record ''topic'' (JStr ''the topic'')))"
    by blast
  from script_fallback_or_as_parsed[OF h1 h2, of demo_json_no_ids] p s l
  have b: "generate_script demo_lib (demo_text_env demo_json_no_ids) demo_record = Inr demo_parsed_no_ids"
    by blast
  show ?thesis
    using h1 n p a b unfolding f by simp
qed

text \<open>
  C3 as stated fails: the answer \<^verbatim>\<open>{}\<close> is returned as a script with no sections,
  a parsed section without an id is returned without one, and on an answer of a thousand
  opening brackets the stage raises and returns no script.
\<close>

theorem script_sections_unvalidated:
  "generate_script demo_lib (demo_text_env ''{}'') demo_record = Inr (JObj [])
   \<and> py_get (JObj []) ''sections'' (JList []) = Inr (JList [])
   \<and> generate_script demo_lib (demo_text_env demo_json_no_ids) demo_record
       = Inr (JObj [(''sections'', JList [JObj [(''narration'', JStr ''Leaves make sugar.'')]])])
   \<and> py_get (JObj [(''narration'', JStr ''Leaves make sugar.'')]) ''id'' JNull = Inr JNull
   \<and> generate_script demo_deep_lib (demo_text_env demo_deep) demo_record = Inl RecursionError"
proof -
  have h1: "py_get demo_record ''subject'' (JStr ''General'') = Inr (JStr ''Biology'')"
    by (simp add: demo_record_def)
  have a: "generate_script demo_lib (demo_text_env ''{}'') demo_record = Inr (JObj [])"
    by (simp add: generate_script_def logged_script_def h1 demo_text_env_def strip_fences_total cleaned_plain demo_loads)
  have b: "generate_script demo_lib (demo_text_env demo_json_no_ids) demo_record
       = Inr (JObj [(''sections'', JList [JObj [(''narration'', JStr ''Leaves make sugar.'')]])])"
    by (simp add: generate_script_def logged_script_def h1 demo_text_env_def strip_fences_total cleaned_no_ids demo_loads)
       (simp add: demo_parsed_no_ids_def)
  show ?thesis
    using a b demo_deep_script by simp
qed

section \<open>Properties of the pipeline\<close>

lemma analyze_photo_dict:
  assumes "analyze_photo lib venv photo_b64 question = Inr vision_result"
  shows "\<exists>kvs. vision_result = JObj kvs"
proof -
  from assms have "\<exists>s. py_get vision_result ''subject'' JNull = Inr s"
    by (auto simp: analyze_photo_def logged_result_def split: sum.splits option.splits loads_result.splits)
  then show ?thesis
    by (cases vision_result) auto
qed

lemma generate_script_shape:
  assumes "generate_script lib tenv vision_result = Inr script"
  shows "\<exists>kvs sections n. script = JObj kvs
           \<and> py_get script ''sections'' (JList []) = Inr sections \<and> py_len sections = Inr n"
proof -
  from assms have "\<exists>sections n. py_get script ''sections'' (JList []) = Inr sections \<and> py_len sections = Inr n"
    by (auto simp: generate_script_def logged_script_def split: sum.splits option.splits loads_result.splits)
  then show ?thesis
    by (cases script) auto
qed

lemma py_len_iter: "py_len v = Inr n \<Longrightarrow> \<exists>items. py_iter v = Inr items"
  by (cases v) auto

lemma media_returns:
  assumes "py_get script ''sections'' (JList []) = Inr sections" and "py_len sections = Inr n"
  shows "snd (generate_all_images lib ienv senv sched script) = Inr ()"
  using assms py_len_iter[OF assms(2)]
  by (auto simp: generate_all_images_def)

lemma narration_returns: "\<exists>narration. narrate_script lib live (JObj kvs) = Inr narration"
  by (simp add: narrate_script_def)

lemma sequential_phases_analysis_failed:
  "analyze_photo lib venv photo_b64 question = Inl exc \<Longrightarrow>
     sequential_phases lib venv tenv photo_b64 question = ([Status ''Analyzing your image...''], Inl exc)"
  by (simp add: sequential_phases_def)

lemma sequential_phases_script_failed:
  assumes "analyze_photo lib venv photo_b64 question = Inr vision_result"
    and "generate_script lib tenv vision_result = Inl exc"
  shows "sequential_phases lib venv tenv photo_b64 question
       = ([Status ''Analyzing your image...'',
           Meta (field vision_result ''subject'' JNull) (field vision_result ''topic'' JNull),
           Status ''Preparing your explainer...''], Inl exc)"
proof -
  from analyze_photo_dict[OF assms(1)] obtain kvs where "vision_result = JObj kvs" by blast
  then show ?thesis
    using assms by (simp add: sequential_phases_def field_def)
qed

lemma sequential_phases_ok:
  assumes "analyze_photo lib venv photo_b64 question = Inr vision_result"
    and "generate_script lib tenv vision_result = Inr script"
  shows "sequential_phases lib venv tenv photo_b64 question
       = ([Status ''Analyzing your image...'',
           Meta (field vision_result ''subject'' JNull) (field vision_result ''topic'' JNull),
           Status ''Preparing your explainer...'',
           Title (field script ''title'' (JStr ''Your Explainer''))], Inr script)"
proof -
  from analyze_photo_dict[OF assms(1)] obtain kvs where "vision_result = JObj kvs" by blast
  moreover from generate_script_shape[OF assms(2)] obtain kvs' where "script = JObj kvs'" by blast
  ultimately show ?thesis
    using assms by (simp add: sequential_phases_def field_def)
qed

lemma demo_analysis:
  "analyze_photo demo_lib demo_vision (JStr ''QUJD'') ''What is this?''
     = Inr (degraded_record ''Sorry, I cannot read this image.'' ''What is this?'')"
  using demo_answer_not_json
  by (simp add: analyze_photo_def logged_result_def demo_decode demo_vision_def strip_fences_total demo_answer_cleaned
      degraded_record_def)

lemma demo_analysis_undecodable:
  "analyze_photo demo_lib demo_vision (JStr ''QUJ'') ''What is this?''
     = Inl (Exn ''binascii.Error'' ''Incorrect padding'')"
  by (simp add: analyze_photo_def logged_result_def demo_lib_def)

lemma demo_script_down:
  "generate_script demo_lib demo_text_down (degraded_record ''Sorry, I cannot read this image.'' ''What is this?'')
     = Inl (Exn ''ServiceUnavailable'' ''503 The service is currently unavailable.'')"
  by (simp add: generate_script_def logged_script_def demo_text_down_def degraded_record_def)

text \<open>
  C2. In a run of \<^verbatim>\<open>run_pipeline\<close> an exception can leave a stage only in the
  analysis or the scripting stage. When \<^verbatim>\<open>analyze_photo\<close> raises, the run's events
  are the first status, one error event with the message "Something went wrong: " followed
  by the exception's text, and \<^verbatim>\<open>done\<close>; when \<^verbatim>\<open>generate_script\<close> raises,
  they are status, meta, status, that one error event, and \<^verbatim>\<open>done\<close>. When both
  return, neither the media nor the narration stage raises, and the run ends with
  \<^verbatim>\<open>done\<close> after their events.
\<close>

theorem escaped_exception_is_reported_once:
  "(\<forall>exc. analyze_photo lib venv photo_b64 question = Inl exc \<longrightarrow>
      run_pipeline lib venv tenv ienv senv live media_sched sched photo_b64 question
        = [Status ''Analyzing your image...'',
           Error (''Something went wrong: '' @ exn_msg exc), Done])
   \<and> (\<forall>vision_result exc.
        analyze_photo lib venv photo_b64 question = Inr vision_result
        \<and> generate_script lib tenv vision_result = Inl exc \<longrightarrow>
        run_pipeline lib venv tenv ienv senv live media_sched sched photo_b64 question
          = [Status ''Analyzing your image...'',
             Meta (field vision_result ''subject'' JNull) (field vision_result ''topic'' JNull),
             Status ''Preparing your explainer...'',
             Error (''Something went wrong: '' @ exn_msg exc), Done])
   \<and> (\<forall>vision_result script.
        analyze_photo lib venv photo_b64 question = Inr vision_result
        \<and> generate_script lib tenv vision_result = Inr script \<longrightarrow>
        snd (generate_all_images lib ienv senv media_sched script) = Inr ()
        \<and> (\<exists>narration. narrate_script lib live script = Inr narration
             \<and> run_pipeline lib venv tenv ienv senv live media_sched sched photo_b64 question
                 = [Status ''Analyzing your image...'',
                    Meta (field vision_result ''subject'' JNull) (field vision_result ''topic'' JNull),
                    Status ''Preparing your explainer...'',
                    Title (field script ''title'' (JStr ''Your Explainer''))]
                   @ interleave sched [fst (generate_all_images lib ienv senv media_sched script), narration]
                   @ [Done]))"
proof (intro conjI allI impI)
  fix exc
  assume "analyze_photo lib venv photo_b64 question = Inl exc"
  then show "run_pipeline lib venv tenv ienv senv live media_sched sched photo_b64 question
        = [Status ''Analyzing your image...'',
           Error (''Something went wrong: '' @ exn_msg exc), Done]"
    by (simp add: run_pipeline_def sequential_phases_analysis_failed failed_def)
next
  fix vision_result exc
  assume "analyze_photo lib venv photo_b64 question = Inr vision_result
        \<and> generate_script lib tenv vision_result = Inl exc"
  then show "run_pipeline lib venv tenv ienv senv live media_sched sched photo_b64 question
          = [Status ''Analyzing your image...'',
             Meta (field vision_result ''subject'' JNull) (field vision_result ''topic'' JNull),
             Status ''Preparing your explainer...'',
             Error (''Something went wrong: '' @ exn_msg exc), Done]"
    by (simp add: run_pipeline_def sequential_phases_script_failed failed_def)
next
  fix vision_result script
  assume a: "analyze_photo lib venv photo_b64 question = Inr vision_result
        \<and> generate_script lib tenv vision_result = Inr script"
  from a generate_script_shape obtain kvs sections n where
    s: "script = JObj kvs" "py_get script ''sections'' (JList []) = Inr sections" "py_len sections = Inr n"
    by blast
  show m: "snd (generate_all_images lib ienv senv media_sched script) = Inr ()"
    by (rule media_returns[OF s(2) s(3)])
  from narration_returns obtain narration where n: "narrate_script lib live script = Inr narration"
    unfolding s(1) by blast
  have "run_pipeline lib venv tenv ienv senv live media_sched sched photo_b64 question
                 = [Status ''Analyzing your image...'',
                    Meta (field vision_result ''subject'' JNull) (field vision_result ''topic'' JNull),
                    Status ''Preparing your explainer...'',
                    Title (field script ''title'' (JStr ''Your Explainer''))]
                   @ interleave sched [fst (generate_all_images lib ienv senv media_sched script), narration]
                   @ [Done]"
    using a by (simp add: run_pipeline_def sequential_phases_ok parallel_phase_def m n)
  with n show "\<exists>narration. narrate_script lib live script = Inr narration
             \<and> run_pipeline lib venv tenv ienv senv live media_sched sched photo_b64 question
                 = [Status ''Analyzing your image...'',
                    Meta (field vision_result ''subject'' JNull) (field vision_result ''topic'' JNull),
                    Status ''Preparing your explainer...'',
                    Title (field script ''title'' (JStr ''Your Explainer''))]
                   @ interleave sched [fst (generate_all_images lib ienv senv media_sched script), narration]
                   @ [Done]"
    by blast
qed

theorem escaped_exception_is_reported_once_witness:
  "analyze_photo demo_lib demo_vision (JStr ''QUJ'') ''What is this?''
     = Inl (Exn ''binascii.Error'' ''Incorrect padding'')
   \<and> run_pipeline demo_lib demo_vision demo_text_down demo_imagen demo_storage demo_live
        [0] [1, 0, 1] (JStr ''QUJ'') ''What is this?''
     = [Status ''Analyzing your image...'',
        Error ''Something went wrong: Incorrect padding'', Done]
   \<and> analyze_photo demo_lib demo_vision (JStr ''QUJD'') ''What is this?''
     = Inr (degraded_record ''Sorry, I cannot read this image.'' ''What is this?'')
   \<and> generate_script demo_lib demo_text_down (degraded_record ''Sorry, I cannot read this image.'' ''What is this?'')
     = Inl (Exn ''ServiceUnavailable'' ''503 The service is currently unavailable.'')
   \<and> run_pipeline demo_lib demo_vision demo_text_down demo_imagen demo_storage demo_live
        [0] [1, 0, 1] (JStr ''QUJD'') ''What is this?''
     = [Status ''Analyzing your image...'',
        Meta (JStr ''General'') (JStr ''Unknown''),
        Status ''Preparing your explainer...'',
        Error ''Something went wrong: 503 The service is currently unavailable.'', Done]"
proof -
  note t1 = escaped_exception_is_reported_once[of demo_lib demo_vision "JStr ''QUJ''" "''What is this?''"
      demo_text_down demo_imagen demo_storage demo_live "[0]" "[1, 0, 1]"]
  note t2 = escaped_exception_is_reported_once[of demo_lib demo_vision "JStr ''QUJD''" "''What is this?''"
      demo_text_down demo_imagen demo_storage demo_live "[0]" "[1, 0, 1]"]
  from t1 demo_analysis_undecodable
  have a: "run_pipeline demo_lib demo_vision demo_text_down demo_imagen demo_storage demo_live
        [0] [1, 0, 1] (JStr ''QUJ'') ''What is this?''
     = [Status ''Analyzing your image...'',
        Error (''Something went wrong: '' @ exn_msg (Exn ''binascii.Error'' ''Incorrect padding'')), Done]"
    by blast
  from t2 demo_analysis demo_script_down
  have b: "run_pipeline demo_lib demo_vision demo_text_down demo_imagen demo_storage demo_live
        [0] [1, 0, 1] (JStr ''QUJD'') ''What is this?''
     = [Status ''Analyzing your image...'',
        Meta (field (degraded_record ''Sorry, I cannot read this image.'' ''What is this?'') ''subject'' JNull)
             (field (degraded_record ''Sorry, I cannot read this image.'' ''What is this?'') ''topic'' JNull),
        Status ''Preparing your explainer...'',
        Error (''Something went wrong: ''
               @ exn_msg (Exn ''ServiceUnavailable'' ''503 The service is currently unavailable.'')), Done]"
    by blast
  show ?thesis
    using a b demo_analysis demo_analysis_undecodable demo_script_down
    by (simp add: field_def degraded_record_def)
qed

lemma content_is_narration:
  "list_all (is_content_of sid) evs \<Longrightarrow> list_all is_narration_event evs"
  by (induction evs) (auto simp: is_content_of_def split: event.splits)

lemma narrate_text_kind: "list_all is_narration_event (fst (narrate_text lib env n t sid))"
  by (rule content_is_narration[OF narrate_text_tagged])

lemma narrate_sections_kind: "list_all is_narration_event (fst (narrate_sections lib env n secs))"
proof (induction secs arbitrary: n)
  case Nil
  then show ?case by simp
next
  case (Cons s secs)
  have t: "narrate_text lib env n t sid = (evs, r) \<Longrightarrow> list_all is_narration_event evs" for t sid evs r
    using narrate_text_kind[of lib env n t sid] by simp
  show ?case
    using Cons[of "Suc n"]
    by (auto split: sum.splits prod.splits option.splits dest: t)
qed

lemma and_then_kind:
  "list_all P (fst a) \<Longrightarrow> list_all P (fst b) \<Longrightarrow> list_all P (fst (and_then a b))"
  by (simp add: and_then_def split: option.splits)

lemma session_body_kind:
  "list_all is_narration_event (fst (session_body lib env sections intro outro))"
  unfolding session_body_def
  by (intro and_then_kind)
     (simp_all add: narrate_intro_def narrate_outro_def narrate_loop_def narrate_text_kind
       narrate_sections_kind split: sum.splits)

lemma with_session_kind:
  "list_all is_narration_event (fst (with_session lib env sections intro outro))"
  by (simp add: with_session_def session_body_kind split: option.splits)

lemma narrate_script_kind:
  "narrate_script lib env script = Inr narration \<Longrightarrow> list_all is_narration_event narration"
  using with_session_kind[of lib env]
  by (auto simp: narrate_script_def split: sum.splits option.splits)

lemma task_kind:
  "list_all (\<lambda>e. \<not> is_meta e) (fst (generate_section_image lib ienv senv i s))"
  by (simp add: generate_section_image_def split: sum.splits option.splits)

lemma media_kind:
  "list_all (\<lambda>e. \<not> is_meta e) (fst (generate_all_images lib ienv senv sched script))"
proof -
  have "list_all (\<lambda>e. \<not> is_meta e) (concat (map fst (section_tasks lib ienv senv items)))" for items
    unfolding section_tasks_def list_all_iff
    by (auto simp: task_kind[unfolded list_all_iff] dest!: set_zip_rightD)
  then have "list_all (\<lambda>e. \<not> is_meta e) (interleave sched (map fst (section_tasks lib ienv senv items)))" for items
    unfolding list_all_iff set_interleave by blast
  then show ?thesis
    by (simp add: generate_all_images_def split: sum.splits)
qed

lemma narration_no_meta: "list_all is_narration_event evs \<Longrightarrow> filter is_meta evs = []"
  by (induction evs) (auto elim: is_narration_event.elims)

lemma media_no_meta: "filter is_meta (fst (generate_all_images lib ienv senv sched script)) = []"
  using media_kind[of lib ienv senv sched script]
  by (simp add: filter_empty_conv list_all_iff)

lemma filter_interleave_none:
  assumes "\<forall>xs\<in>set xss. filter P xs = []"
  shows "filter P (interleave sched xss) = []"
proof -
  have "\<forall>x\<in>set (concat xss). \<not> P x"
    using assms by (auto simp: filter_empty_conv)
  then show ?thesis
    by (simp add: filter_empty_conv set_interleave)
qed

lemma failed_no_meta: "filter is_meta (failed exc) = []"
  by (simp add: failed_def)

lemma parallel_no_meta:
  "filter is_meta (parallel_phase lib ienv senv live media_sched sched script) = []"
proof -
  have n: "narrate_script lib live script = Inr narration \<Longrightarrow> filter is_meta narration = []" for narration
    by (rule narration_no_meta[OF narrate_script_kind])
  show ?thesis
    unfolding parallel_phase_def
    by (auto split: sum.splits intro!: filter_interleave_none
        simp: media_no_meta failed_no_meta dest: n)
qed

lemma phases_meta:
  "filter is_meta (fst (sequential_phases lib venv tenv photo_b64 question))
     = (case analyze_photo lib venv photo_b64 question of
          Inl exc \<Rightarrow> []
        | Inr vision_result \<Rightarrow>
            [Meta (field vision_result ''subject'' JNull) (field vision_result ''topic'' JNull)])"
proof (cases "analyze_photo lib venv photo_b64 question")
  case (Inl exc)
  then show ?thesis by (simp add: sequential_phases_def)
next
  case (Inr vision_result)
  from analyze_photo_dict[OF Inr] obtain kvs where "vision_result = JObj kvs" by blast
  then show ?thesis
    using Inr by (simp add: sequential_phases_def field_def split: sum.splits)
qed

lemma run_pipeline_meta:
  "filter is_meta (run_pipeline lib venv tenv ienv senv live media_sched sched photo_b64 question)
     = filter is_meta (fst (sequential_phases lib venv tenv photo_b64 question))"
  by (simp add: run_pipeline_def parallel_no_meta failed_no_meta split: sum.splits)

lemma analyze_photo_unparsed:
  assumes "b64decode lib photo_b64 = Inr image_bytes"
    and "vision_generate_content venv image_bytes (VISION_PROMPT question) = Inr (Some response_text)"
    and "json_loads lib (cleaned response_text) = JSONDecodeError"
  shows "analyze_photo lib venv photo_b64 question
       = Inr (degraded_record (cleaned response_text) question)"
  using assms by (simp add: analyze_photo_def logged_result_def strip_fences_total degraded_record_def)

text \<open>
  C4. A run of the pipeline has no \<^verbatim>\<open>meta\<close> event when the analysis raises, and
  exactly one when it returns, carrying the subject and topic of the record returned. When
  the analysis degraded because its answer did not parse, that one event carries what the
  degraded record holds, "General" and "Unknown", and nothing else.
\<close>

theorem one_meta_event_per_analysis:
  "(\<forall>exc. analyze_photo lib venv photo_b64 question = Inl exc \<longrightarrow>
      filter is_meta (run_pipeline lib venv tenv ienv senv live media_sched sched photo_b64 question) = [])
   \<and> (\<forall>vision_result. analyze_photo lib venv photo_b64 question = Inr vision_result \<longrightarrow>
        filter is_meta (run_pipeline lib venv tenv ienv senv live media_sched sched photo_b64 question)
          = [Meta (field vision_result ''subject'' JNull) (field vision_result ''topic'' JNull)])
   \<and> (\<forall>image_bytes response_text.
        b64decode lib photo_b64 = Inr image_bytes
        \<and> vision_generate_content venv image_bytes (VISION_PROMPT question) = Inr (Some response_text)
        \<and> json_loads lib (cleaned response_text) = JSONDecodeError \<longrightarrow>
        filter is_meta (run_pipeline lib venv tenv ienv senv live media_sched sched photo_b64 question)
          = [Meta (JStr ''General'') (JStr ''Unknown'')])"
proof (intro conjI allI impI)
  fix exc
  assume "analyze_photo lib venv photo_b64 question = Inl exc"
  then show "filter is_meta (run_pipeline lib venv tenv ienv senv live media_sched sched photo_b64 question) = []"
    by (simp add: run_pipeline_meta phases_meta)
next
  fix vision_result
  assume "analyze_photo lib venv photo_b64 question = Inr vision_result"
  then show "filter is_meta (run_pipeline lib venv tenv ienv senv live media_sched sched photo_b64 question)
          = [Meta (field vision_result ''subject'' JNull) (field vision_result ''topic'' JNull)]"
    by (simp add: run_pipeline_meta phases_meta)
next
  fix image_bytes response_text
  assume "b64decode lib photo_b64 = Inr image_bytes
        \<and> vision_generate_content venv image_bytes (VISION_PROMPT question) = Inr (Some response_text)
        \<and> json_loads lib (cleaned response_text) = JSONDecodeError"
  then have "analyze_photo lib venv photo_b64 question
       = Inr (degraded_record (cleaned response_text) question)"
    by (simp add: analyze_photo_unparsed)
  then show "filter is_meta (run_pipeline lib venv tenv ienv senv live media_sched sched photo_b64 question)
          = [Meta (JStr ''General'') (JStr ''Unknown'')]"
    by (simp add: run_pipeline_meta phases_meta degraded_record_def field_def)
qed

theorem one_meta_event_per_analysis_witness:
  "analyze_photo demo_lib demo_vision (JStr ''QUJ'') ''What is this?''
     = Inl (Exn ''binascii.Error'' ''Incorrect padding'')
   \<and> filter is_meta (run_pipeline demo_lib demo_vision (demo_text_env ''Sure thing!'') demo_imagen
        demo_storage demo_live [0] [1, 0, 1] (JStr ''QUJ'') ''What is this?'') = []
   \<and> b64decode demo_lib (JStr ''QUJD'') = Inr [0x41, 0x42, 0x43]
   \<and> vision_generate_content demo_vision [0x41, 0x42, 0x43] (VISION_PROMPT ''What is this?'')
       = Inr (Some demo_answer)
   \<and> json_loads demo_lib (cleaned demo_answer) = JSONDecodeError
   \<and> filter is_meta (run_pipeline demo_lib demo_vision (demo_text_env ''Sure thing!'') demo_imagen
        demo_storage demo_live [0] [1, 0, 1] (JStr ''QUJD'') ''What is this?'')
       = [Meta (JStr ''General'') (JStr ''Unknown'')]"
proof -
  have v: "vision_generate_content demo_vision [0x41, 0x42, 0x43] (VISION_PROMPT ''What is this?'')
       = Inr (Some demo_answer)"
    by (simp add: demo_vision_def)
  from one_meta_event_per_analysis[of demo_lib demo_vision "JStr ''QUJ''" "''What is this?''"
      "demo_text_env ''Sure thing!''" demo_imagen demo_storage demo_live "[0]" "[1, 0, 1]"]
    demo_analysis_undecodable
  have a: "filter is_meta (run_pipeline demo_lib demo_vision (demo_text_env ''Sure thing!'') demo_imagen
        demo_storage demo_live [0] [1, 0, 1] (JStr ''QUJ'') ''What is this?'') = []"
    by blast
  from one_meta_event_per_analysis[of demo_lib demo_vision "JStr ''QUJD''" "''What is this?''"
      "demo_text_env ''Sure thing!''" demo_imagen demo_storage demo_live "[0]" "[1, 0, 1]"]
    demo_decode v demo_answer_not_json
  have b: "filter is_meta (run_pipeline demo_lib demo_vision (demo_text_env ''Sure thing!'') demo_imagen
        demo_storage demo_live [0] [1, 0, 1] (JStr ''QUJD'') ''What is this?'')
       = [Meta (JStr ''General'') (JStr ''Unknown'')]"
    by blast
  show ?thesis
    using a b demo_analysis_undecodable demo_decode v demo_answer_not_json by simp
qed

section \<open>Properties of the session controller\<close>

lemma cancel_active:
  "pipeline_task s = Some t \<Longrightarrow> \<not> is_done t \<Longrightarrow>
     pipeline_task (cancel_pipeline k s) = Some \<lparr> pending = [], is_done = True \<rparr>"
proof -
  have keep: "pipeline_task ((sender_step ^^ n) c) = pipeline_task c" for n c
    by (induction n) (auto simp: sender_step_def split: list.splits option.splits)
  assume "pipeline_task s = Some t" "\<not> is_done t"
  then show ?thesis
    by (simp add: cancel_pipeline_def keep)
qed

lemma cancel_keeps_photo: "stored_photo_b64 (cancel_pipeline k s) = stored_photo_b64 s"
proof -
  have keep: "stored_photo_b64 ((sender_step ^^ n) c) = stored_photo_b64 c" for n c
    by (induction n) (auto simp: sender_step_def split: list.splits option.splits)
  show ?thesis
    by (simp add: cancel_pipeline_def keep split: option.splits)
qed

lemma handle_message_loads_raised:
  "json_loads lib raw = LoadsRaised exc \<Longrightarrow> handle_message lib run raw k s = crashed exc k s"
  by (simp add: handle_message_def)

lemma demo_ws_loads:
  "json_loads demo_ws_lib demo_question
     = Loaded (JObj [(''type'', JStr ''question''), (''text'', JStr ''What is this?'')])"
  "json_loads demo_ws_lib demo_blank_question
     = Loaded (JObj [(''type'', JStr ''question''), (''text'', JStr '' '')])"
  by (simp_all add: demo_ws_lib_def demo_question_def demo_blank_question_def)

lemma demo_strips:
  "py_strip ''What is this?'' = ''What is this?''" "py_strip '' '' = []"
  by (simp_all add: py_strip_def is_space_def)

lemma demo_cancel:
  "cancel_pipeline (Suc 0) demo_conn
     = \<lparr> stored_photo_b64 = JStr ''QUJD'',
         pipeline_task = Some \<lparr> pending = [], is_done = True \<rparr>,
         send_queue = [Some (Status ''Preparing your explainer...'')],
         client_received = [Status ''Analyzing your image...'', Meta (JStr ''General'') (JStr ''Unknown'')],
         sender_alive = True \<rparr>"
  by (simp add: cancel_pipeline_def demo_conn_def sender_step_def)

text \<open>
  C8, as the code has it. For a question message whose text is a string or absent: if the
  text is empty once surrounding whitespace is trimmed, or if no photo is stored, the
  handler puts one error event on the queue and changes nothing else (stored photo, task,
  what the client has received). Otherwise it first cancels a task that is not done, which
  then has nothing left to put, next empties the queue, and then installs the new task,
  the job for the stored photo and the trimmed text, which has put nothing yet.
\<close>

theorem question_replaces_the_job:
  assumes "json_loads lib raw = Loaded msg"
    and "py_get msg ''type'' JNull = Inr (JStr ''question'')"
    and "field msg ''text'' (JStr []) = JStr txt"
  shows "(py_strip txt = [] \<longrightarrow>
            handle_message lib run raw k s
              = Continue (s\<lparr> send_queue := send_queue s @ [Some (Error ''Question text is empty.'')] \<rparr>))
       \<and> (py_strip txt \<noteq> [] \<and> \<not> py_truthy (stored_photo_b64 s) \<longrightarrow>
            handle_message lib run raw k s
              = Continue (s\<lparr> send_queue := send_queue s @ [Some (Error ''Please capture a photo first.'')] \<rparr>))
       \<and> (py_strip txt \<noteq> [] \<and> py_truthy (stored_photo_b64 s) \<longrightarrow>
            handle_message lib run raw k s
              = Continue ((reset_queue (cancel_pipeline k s))
                            \<lparr> pipeline_task :=
                                Some \<lparr> pending = run (stored_photo_b64 s) (py_strip txt), is_done = False \<rparr> \<rparr>)
            \<and> (\<forall>t. pipeline_task s = Some t \<and> \<not> is_done t \<longrightarrow>
                   pipeline_task (cancel_pipeline k s) = Some \<lparr> pending = [], is_done = True \<rparr>)
            \<and> send_queue (reset_queue (cancel_pipeline k s)) = []
            \<and> stored_photo_b64 (reset_queue (cancel_pipeline k s)) = stored_photo_b64 s)"
proof -
  have h: "handle_message lib run raw k s = on_question run msg k s"
    using assms(1,2) by (simp add: handle_message_def)
  show ?thesis
    unfolding h
    using assms(3) cancel_active[of s _ k] cancel_keeps_photo[of k s]
    by (auto simp: on_question_def put_def reset_queue_def)
qed

theorem question_replaces_the_job_witness:
  "json_loads demo_ws_lib demo_question
     = Loaded (JObj [(''type'', JStr ''question''), (''text'', JStr ''What is this?'')])
   \<and> py_strip ''What is this?'' \<noteq> [] \<and> py_truthy (stored_photo_b64 demo_conn)
   \<and> handle_message demo_ws_lib demo_run demo_question 1 demo_conn
       = Continue \<lparr> stored_photo_b64 = JStr ''QUJD'',
                      pipeline_task = Some \<lparr> pending = demo_run (JStr ''QUJD'') ''What is this?'',
                                            is_done = False \<rparr>,
                      send_queue = [],
                      client_received = [Status ''Analyzing your image...'',
                                         Meta (JStr ''General'') (JStr ''Unknown'')],
                      sender_alive = True \<rparr>
   \<and> pipeline_task (cancel_pipeline 1 demo_conn) = Some \<lparr> pending = [], is_done = True \<rparr>
   \<and> json_loads demo_ws_lib demo_blank_question
       = Loaded (JObj [(''type'', JStr ''question''), (''text'', JStr '' '')])
   \<and> py_strip '' '' = []
   \<and> handle_message demo_ws_lib demo_run demo_blank_question 1 demo_conn
       = Continue (demo_conn\<lparr> send_queue := send_queue demo_conn @ [Some (Error ''Question text is empty.'')] \<rparr>)"
proof -
  have p: "py_truthy (stored_photo_b64 demo_conn)"
    and a: "pipeline_task demo_conn = Some \<lparr> pending = [Title (JStr ''Unknown''), Done], is_done = False \<rparr>"
    and ph: "stored_photo_b64 demo_conn = JStr ''QUJD''"
    by (simp_all add: demo_conn_def)
  have ty: "py_get (JObj [(''type'', JStr ''question''), (''text'', t)]) ''type'' JNull = Inr (JStr ''question'')"
    and tx: "field (JObj [(''type'', JStr ''question''), (''text'', t)]) ''text'' (JStr []) = t" for t
    by (simp_all add: field_def)
  note q = question_replaces_the_job[OF demo_ws_loads(1) ty tx, of demo_run 1 demo_conn]
  note b = question_replaces_the_job[OF demo_ws_loads(2) ty tx, of demo_run 1 demo_conn]
  from q p have 1: "handle_message demo_ws_lib demo_run demo_question 1 demo_conn
       = Continue ((reset_queue (cancel_pipeline 1 demo_conn))
                     \<lparr> pipeline_task :=
                         Some \<lparr> pending = demo_run (stored_photo_b64 demo_conn) (py_strip ''What is this?''),
                                is_done = False \<rparr> \<rparr>)"
    by (simp add: demo_strips)
  from q p a have 2: "pipeline_task (cancel_pipeline 1 demo_conn) = Some \<lparr> pending = [], is_done = True \<rparr>"
    by (simp add: demo_strips)
  from b have 3: "handle_message demo_ws_lib demo_run demo_blank_question 1 demo_conn
       = Continue (demo_conn\<lparr> send_queue := send_queue demo_conn @ [Some (Error ''Question text is empty.'')] \<rparr>)"
    by (simp add: demo_strips)
  show ?thesis
    using p 2 3 demo_ws_loads unfolding 1
    by (simp add: demo_strips demo_cancel reset_queue_def ph)
qed

text \<open>
  C8 as stated fails: a question whose text is one space is not empty and arrives with a
  photo stored, yet the handler answers with the error event, leaves the running task as
  it is and starts no job.
\<close>

theorem blank_question_starts_no_job:
  "json_loads demo_ws_lib demo_blank_question
     = Loaded (JObj [(''type'', JStr ''question''), (''text'', JStr '' '')])
   \<and> '' '' \<noteq> []
   \<and> py_truthy (stored_photo_b64 demo_conn)
   \<and> handle_message demo_ws_lib demo_run demo_blank_question 1 demo_conn
       = Continue (demo_conn\<lparr> send_queue := send_queue demo_conn @ [Some (Error ''Question text is empty.'')] \<rparr>)
   \<and> pipeline_task (demo_conn\<lparr> send_queue := send_queue demo_conn @ [Some (Error ''Question text is empty.'')] \<rparr>)
       = Some \<lparr> pending = [Title (JStr ''Unknown''), Done], is_done = False \<rparr>"
  by (simp add: demo_ws_loads handle_message_def on_question_def field_def demo_strips put_def)
     (simp add: demo_conn_def)

end
